theory Spec2Isabelle
  imports Complex_Main "HOL-Library.Sublist"
begin

section \<open>Data model of \<^verbatim>\<open>reag/client.py\<close> and \<^verbatim>\<open>reag/memory.py\<close>\<close>

text \<open>
  Python strings are modelled as \<^typ>\<open>string\<close>. Exceptions are values of \<open>py_error\<close>;
  a function that can raise returns \<open>py_error + 'a\<close> with \<open>Inl\<close> the exception.
  \<open>QueryFailed e\<close> is the \<^verbatim>\<open>Exception(f"Query failed: {str(e)}")\<close> that
  \<^verbatim>\<open>_batch_query\<close> raises from its outer handler.
\<close>

datatype py_error =
    TypeError
  | KeyError
  | IndexError
  | ValueError
  | AttributeError
  | ValidationError
  | JSONDecodeError
  | RegexError
  | BackendError string
  | QueryFailed py_error

text \<open>\<^verbatim>\<open>Union[str, int]\<close>: the type of a metadata value and of a filter's value.\<close>

datatype pvalue = VStr string | VInt int

text \<open>
  \<^verbatim>\<open>class Document(BaseModel)\<close>: \<^verbatim>\<open>metadata: Optional[Dict[str, Union[str, int]]] = None\<close>.
  The dictionary is an association list, read with \<^const>\<open>map_of\<close>.
\<close>

record document =
  name :: string
  content :: string
  metadata :: "(string \<times> pvalue) list option"

text \<open>
  \<^verbatim>\<open>class MetadataFilter(BaseModel)\<close>; the field \<^verbatim>\<open>value\<close> is called \<open>fvalue\<close> here.
\<close>

record metadata_filter =
  key :: string
  fvalue :: pvalue
  operator :: "string option"

record query_result =
  qr_content :: string
  qr_reasoning :: string
  qr_is_irrelevant :: bool
  qr_document :: document

record streaming_query_result =
  sq_content :: string
  sq_reasoning :: "string option"
  sq_is_irrelevant :: "bool option"
  sq_document :: "document option"

text \<open>
  A value as \<^verbatim>\<open>json.loads\<close> returns it. A dictionary is an association list read with
  \<^const>\<open>map_of\<close>. The floats NaN and the infinities are not represented.
\<close>

datatype pyval =
    PNone
  | PBool bool
  | PInt int
  | PFloat real
  | PStr string
  | PList "pyval list"
  | PDict "(string \<times> pyval) list"

text \<open>
  A message of the conversation, \<^verbatim>\<open>{"role": r, "content": c}\<close>. \<^verbatim>\<open>Memory.add_message\<close>
  does not validate its argument, and the JSON path stores the \<^verbatim>\<open>content\<close> member of the
  response as it was parsed, so the content is a \<^typ>\<open>pyval\<close>.
\<close>

record message =
  msg_role :: string
  msg_content :: pyval

text \<open>
  The keyword arguments of one \<^verbatim>\<open>acompletion\<close> call (\<^verbatim>\<open>response_format\<close> and the
  pass-through \<^verbatim>\<open>model_kwargs\<close> are constant for a client and left out).
\<close>

record request =
  req_model :: string
  req_messages :: "message list"
  req_stream :: bool

text \<open>
  A \<^verbatim>\<open>ModelResponse\<close> is the list of its choices, each the \<^verbatim>\<open>message.content\<close> of the
  choice (\<^verbatim>\<open>Optional[str]\<close>); a chunk of a stream is the list of its choices, each the
  \<^verbatim>\<open>delta.content\<close>. A stream is its chunks and the exception that ends it, if any.
\<close>

type_synonym response = "string option list"
type_synonym chunk = "string option list"

text \<open>
  The libraries the client calls and the repository does not contain:
  \<^item> \<open>re_match p s\<close> is \<^verbatim>\<open>re.match(p, s) is not None\<close> for strings \<open>p\<close>, \<open>s\<close>
    (\<^verbatim>\<open>re.error\<close> for a pattern that does not compile);
  \<^item> \<open>json_loads\<close> is \<^verbatim>\<open>json.loads\<close> on a string;
  \<^item> \<open>str_metadata\<close> is \<^verbatim>\<open>str()\<close> of a document's metadata, as the f-string
    of \<^verbatim>\<open>format_doc\<close> prints it;
  \<^item> \<open>acompletion\<close> and \<open>acompletion_stream\<close> are litellm's \<^verbatim>\<open>acompletion\<close> without
    and with \<^verbatim>\<open>stream=True\<close>; the backend has a state of type \<open>'b\<close>, so that equal
    requests can get different responses.
\<close>

record 'b env =
  re_match :: "string \<Rightarrow> string \<Rightarrow> py_error + bool"
  json_loads :: "string \<Rightarrow> py_error + pyval"
  str_metadata :: "(string \<times> pvalue) list option \<Rightarrow> string"
  acompletion :: "'b \<Rightarrow> request \<Rightarrow> (py_error + response) \<times> 'b"
  acompletion_stream :: "'b \<Rightarrow> request \<Rightarrow> (py_error + chunk list \<times> py_error option) \<times> 'b"

section \<open>Metadata filter evaluator\<close>

text \<open>Python's \<^verbatim>\<open><\<close> on two strings: lexicographic on the code points.\<close>

fun str_less :: "string \<Rightarrow> string \<Rightarrow> bool" where
  "str_less [] [] = False"
| "str_less [] (y # ys) = True"
| "str_less (x # xs) [] = False"
| "str_less (x # xs) (y # ys) =
     (if x = y then str_less xs ys else (of_char x :: nat) < of_char y)"

text \<open>
  \<^verbatim>\<open>a < b\<close> on two values of \<^verbatim>\<open>Union[str, int]\<close>: a string and an integer do not
  compare, Python raises \<^verbatim>\<open>TypeError\<close>. The other three orderings follow.
\<close>

fun py_lt :: "pvalue \<Rightarrow> pvalue \<Rightarrow> py_error + bool" where
  "py_lt (VInt a) (VInt b) = Inr (a < b)"
| "py_lt (VStr a) (VStr b) = Inr (str_less a b)"
| "py_lt (VInt a) (VStr b) = Inl TypeError"
| "py_lt (VStr a) (VInt b) = Inl TypeError"

fun py_le :: "pvalue \<Rightarrow> pvalue \<Rightarrow> py_error + bool" where
  "py_le (VInt a) (VInt b) = Inr (a \<le> b)"
| "py_le (VStr a) (VStr b) = Inr (a = b \<or> str_less a b)"
| "py_le (VInt a) (VStr b) = Inl TypeError"
| "py_le (VStr a) (VInt b) = Inl TypeError"

definition py_gt :: "pvalue \<Rightarrow> pvalue \<Rightarrow> py_error + bool" where
  "py_gt a b = py_lt b a"

definition py_ge :: "pvalue \<Rightarrow> pvalue \<Rightarrow> py_error + bool" where
  "py_ge a b = py_le b a"

text \<open>
  \<^verbatim>\<open>isinstance(val, str) and f.value in val\<close>, and the same with \<^verbatim>\<open>val.startswith(f.value)\<close>,
  \<^verbatim>\<open>val.endswith(f.value)\<close> and \<^verbatim>\<open>re.match(f.value, val) is not None\<close>: an integer \<open>val\<close>
  gives \<^verbatim>\<open>False\<close>, a string \<open>val\<close> with an integer \<^verbatim>\<open>f.value\<close> raises \<^verbatim>\<open>TypeError\<close>.
\<close>

fun str_op :: "(string \<Rightarrow> string \<Rightarrow> py_error + bool) \<Rightarrow> pvalue \<Rightarrow> pvalue \<Rightarrow> py_error + bool" where
  "str_op test (VInt v) w = Inr False"
| "str_op test (VStr v) (VInt w) = Inl TypeError"
| "str_op test (VStr v) (VStr w) = test w v"

text \<open>The body of \<^verbatim>\<open>passes_filter\<close> after \<open>val\<close> and \<open>op\<close> are bound.\<close>

definition apply_operator :: "'b env \<Rightarrow> string \<Rightarrow> pvalue \<Rightarrow> pvalue \<Rightarrow> py_error + bool" where
  "apply_operator E op v w =
     (if op = ''equals'' then Inr (v = w)
      else if op = ''notEquals'' then Inr (v \<noteq> w)
      else if op = ''contains'' then str_op (\<lambda>t s. Inr (sublist t s)) v w
      else if op = ''startsWith'' then str_op (\<lambda>t s. Inr (prefix t s)) v w
      else if op = ''endsWith'' then str_op (\<lambda>t s. Inr (suffix t s)) v w
      else if op = ''regex'' then str_op (re_match E) v w
      else if op = ''greaterThan'' then py_gt v w
      else if op = ''lessThan'' then py_lt v w
      else if op = ''greaterThanOrEqual'' then py_ge v w
      else if op = ''lessThanOrEqual'' then py_le v w
      else Inr False)"

text \<open>\<^verbatim>\<open>f.operator or "equals"\<close>: an absent or empty operator is \<^verbatim>\<open>"equals"\<close>.\<close>

definition operator_or_equals :: "metadata_filter \<Rightarrow> string" where
  "operator_or_equals f =
     (case operator f of None \<Rightarrow> ''equals'' | Some s \<Rightarrow> if s = [] then ''equals'' else s)"

definition passes_filter :: "'b env \<Rightarrow> document \<Rightarrow> metadata_filter \<Rightarrow> py_error + bool" where
  "passes_filter E doc f =
     (case metadata doc of
        None \<Rightarrow> Inr False
      | Some m \<Rightarrow>
          if m = [] then Inr False
          else (case map_of m (key f) of
                  None \<Rightarrow> Inr False
                | Some v \<Rightarrow> apply_operator E (operator_or_equals f) v (fvalue f)))"

text \<open>
  \<^verbatim>\<open>all(passes_filter(doc, f) for f in filters)\<close>: the generator stops at the first filter
  that is false, so a later filter that would raise is not evaluated.
\<close>

fun all_pass :: "'b env \<Rightarrow> document \<Rightarrow> metadata_filter list \<Rightarrow> py_error + bool" where
  "all_pass E doc [] = Inr True"
| "all_pass E doc (f # fs) =
     (case passes_filter E doc f of
        Inl e \<Rightarrow> Inl e
      | Inr b \<Rightarrow> if b then all_pass E doc fs else Inr False)"

text \<open>The list comprehension over the documents; the first exception ends it.\<close>

fun keep_passing :: "'b env \<Rightarrow> metadata_filter list \<Rightarrow> document list \<Rightarrow> py_error + document list" where
  "keep_passing E fs [] = Inr []"
| "keep_passing E fs (doc # docs) =
     (case all_pass E doc fs of
        Inl e \<Rightarrow> Inl e
      | Inr b \<Rightarrow>
          (case keep_passing E fs docs of
             Inl e \<Rightarrow> Inl e
           | Inr rest \<Rightarrow> Inr (if b then doc # rest else rest)))"

text \<open>\<^verbatim>\<open>if not filters: return documents\<close> covers \<^verbatim>\<open>None\<close> and the empty list.\<close>

definition filter_documents_by_metadata ::
  "'b env \<Rightarrow> document list \<Rightarrow> metadata_filter list option \<Rightarrow> py_error + document list" where
  "filter_documents_by_metadata E documents filters =
     (case filters of
        None \<Rightarrow> Inr documents
      | Some fs \<Rightarrow> if fs = [] then Inr documents else keep_passing E fs documents)"

section \<open>Conversation memory\<close>

text \<open>\<^verbatim>\<open>class Memory(BaseModel)\<close> with its three methods; the object is updated in place.\<close>

record memory =
  history :: "message list"

definition add_message :: "memory \<Rightarrow> message \<Rightarrow> memory" where
  "add_message m msg = m\<lparr>history := history m @ [msg]\<rparr>"

definition get_history :: "memory \<Rightarrow> message list" where
  "get_history m = history m"

definition clear :: "memory \<Rightarrow> memory" where
  "clear m = m\<lparr>history := []\<rparr>"

section \<open>Document batcher\<close>

text \<open>
  \<^verbatim>\<open>range(i, n, step)\<close> for a positive step, as the list of its elements. The step \<open>0\<close>
  is an error of \<^verbatim>\<open>range\<close>, handled in \<open>batches\<close>.
\<close>

function py_range :: "nat \<Rightarrow> nat \<Rightarrow> nat \<Rightarrow> nat list" where
  "py_range i n step =
     (if step = 0 then [] else if i < n then i # py_range (i + step) n step else [])"
  by pat_completeness auto
termination
  by (relation "measure (\<lambda>(i, n, step). n - i)") auto

declare py_range.simps [simp del]

text \<open>
  \<^verbatim>\<open>[filtered_documents[i : i + batch_size] for i in range(0, len(filtered_documents), batch_size)]\<close>.
  \<^verbatim>\<open>range\<close> raises \<^verbatim>\<open>ValueError\<close> for the step 0 and is empty for a negative step.
\<close>

definition batches :: "int \<Rightarrow> 'a list \<Rightarrow> py_error + 'a list list" where
  "batches batch_size filtered_documents =
     (if batch_size = 0 then Inl ValueError
      else if batch_size < 0 then Inr []
      else Inr (map (\<lambda>i. take (nat batch_size) (drop i filtered_documents))
                 (py_range 0 (length filtered_documents) (nat batch_size))))"

section \<open>Parsing the text of a reasoning model\<close>

text \<open>
  The regular expressions of \<^verbatim>\<open>_extract_think_content\<close> are fixed, so each is written out
  as the string function it denotes. Characters are bytes here: the functions agree with
  Python on ASCII text (\<^verbatim>\<open>\s\<close>, \<^verbatim>\<open>strip()\<close> and \<^verbatim>\<open>re.IGNORECASE\<close> also know
  non-ASCII white space and letters, which are not modelled).
\<close>

definition is_space :: "char \<Rightarrow> bool" where
  "is_space c = ((of_char c :: nat) \<in> set [9, 10, 11, 12, 13, 28, 29, 30, 31, 32])"

definition strip :: "string \<Rightarrow> string" where
  "strip s = rev (dropWhile is_space (rev (dropWhile is_space s)))"

definition to_lower :: "char \<Rightarrow> char" where
  "to_lower c =
     (if (65 :: nat) \<le> of_char c \<and> (of_char c :: nat) \<le> 90
      then char_of ((of_char c :: nat) + 32) else c)"

definition lower :: "string \<Rightarrow> string" where
  "lower s = map to_lower s"

text \<open>
  The first occurrence of \<open>pat\<close> in a text: what stands before it and what follows it.
\<close>

fun split_first :: "string \<Rightarrow> string \<Rightarrow> (string \<times> string) option" where
  "split_first pat [] = (if pat = [] then Some ([], []) else None)"
| "split_first pat (c # cs) =
     (if prefix pat (c # cs) then Some ([], drop (length pat) (c # cs))
      else map_option (\<lambda>(a, b). (c # a, b)) (split_first pat cs))"

text \<open>
  \<^verbatim>\<open>re.search(r'<think>(.*?)</think>', text, flags=re.DOTALL)\<close>: the leftmost
  \<^verbatim>\<open><think>\<close> and the first \<^verbatim>\<open></think>\<close> after it; the result is the text before
  the match, group 1 and the text after the match.
\<close>

definition think_match :: "string \<Rightarrow> (string \<times> string \<times> string) option" where
  "think_match text =
     (case split_first ''<think>'' text of
        None \<Rightarrow> None
      | Some (before, rest) \<Rightarrow>
          (case split_first ''</think>'' rest of
             None \<Rightarrow> None
           | Some (inner, after) \<Rightarrow> Some (before, inner, after)))"

lemma split_first_length:
  "split_first pat s = Some (a, b) \<Longrightarrow> length a + length pat + length b = length s"
proof (induction s arbitrary: a b)
  case Nil
  then show ?case by (simp split: if_splits)
next
  case (Cons c cs)
  show ?case
  proof (cases "prefix pat (c # cs)")
    case True
    with Cons.prems have "a = []" "b = drop (length pat) (c # cs)" by simp_all
    moreover from True have "length pat \<le> length (c # cs)" by (rule prefix_length_le)
    ultimately show ?thesis by simp
  next
    case False
    with Cons.prems obtain a' where "split_first pat cs = Some (a', b)" "a = c # a'"
      by auto
    with Cons.IH [of a' b] show ?thesis by simp
  qed
qed

lemma think_match_shorter:
  "think_match text = Some (before, inner, after) \<Longrightarrow> length after < length text"
  unfolding think_match_def
  by (auto split: option.splits dest!: split_first_length)

text \<open>\<^verbatim>\<open>re.sub(r'<think>.*?</think>', '', text, flags=re.DOTALL)\<close>.\<close>

function remove_think :: "string \<Rightarrow> string" where
  "remove_think text =
     (case think_match text of
        None \<Rightarrow> text
      | Some (before, inner, after) \<Rightarrow> before @ remove_think after)"
  by pat_completeness auto
termination
  by (relation "measure length") (auto dest: think_match_shorter)

declare remove_think.simps [simp del]

text \<open>
  \<^verbatim>\<open>re.search(r'\*\*isIrrelevant:\*\*\s*(true|false)', remaining_text, re.IGNORECASE)\<close>:
  \<open>marker_here\<close> is the match at the start of the text, \<open>irrelevant_match\<close> the leftmost
  match; both give group 1.
\<close>

definition marker_here :: "string \<Rightarrow> string option" where
  "marker_here s =
     (if lower (take 17 s) = ''**isirrelevant:**'' then
        (let r = dropWhile is_space (drop 17 s) in
         if lower (take 4 r) = ''true'' then Some (take 4 r)
         else if lower (take 5 r) = ''false'' then Some (take 5 r)
         else None)
      else None)"

fun irrelevant_match :: "string \<Rightarrow> string option" where
  "irrelevant_match [] = None"
| "irrelevant_match (c # cs) =
     (case marker_here (c # cs) of
        Some g \<Rightarrow> Some g
      | None \<Rightarrow> irrelevant_match cs)"

text \<open>
  \<^verbatim>\<open>re.search(r'\*\*Answer:\*\*\s*(.*?)(?:\n|$)', remaining_text, re.DOTALL)\<close>, group 1:
  after the marker and the white space that follows it, the text up to the next newline.
\<close>

definition content_match :: "string \<Rightarrow> string option" where
  "content_match s =
     (case split_first ''**Answer:**'' s of
        None \<Rightarrow> None
      | Some (before, rest) \<Rightarrow>
          Some (takeWhile (\<lambda>c. c \<noteq> CHR 0x0A) (dropWhile is_space rest)))"

definition extract_think_content :: "string \<Rightarrow> string \<times> string \<times> bool" where
  "extract_think_content text =
     (let reasoning = (case think_match text of
                         None \<Rightarrow> []
                       | Some (before, inner, after) \<Rightarrow> strip inner);
          remaining_text = strip (remove_think text);
          is_irrelevant = (case irrelevant_match remaining_text of
                             None \<Rightarrow> True
                           | Some g \<Rightarrow> lower g = ''true'');
          content = (case content_match remaining_text of
                       None \<Rightarrow> []
                     | Some g \<Rightarrow> strip g)
      in (content, reasoning, is_irrelevant))"

section \<open>Reading a parsed JSON response\<close>

text \<open>\<^verbatim>\<open>data[k]\<close> for a string \<open>k\<close>.\<close>

fun py_getitem :: "pyval \<Rightarrow> string \<Rightarrow> py_error + pyval" where
  "py_getitem (PDict kvs) k = (case map_of kvs k of None \<Rightarrow> Inl KeyError | Some v \<Rightarrow> Inr v)"
| "py_getitem v k = Inl TypeError"

text \<open>\<^verbatim>\<open>d.get(k, default)\<close>: only a dictionary has the method.\<close>

fun py_get :: "pyval \<Rightarrow> string \<Rightarrow> pyval \<Rightarrow> py_error + pyval" where
  "py_get (PDict kvs) k dflt = (case map_of kvs k of None \<Rightarrow> Inr dflt | Some v \<Rightarrow> Inr v)"
| "py_get v k dflt = Inl AttributeError"

text \<open>The truth value of an object, as \<^verbatim>\<open>if\<close> tests it.\<close>

fun truthy :: "pyval \<Rightarrow> bool" where
  "truthy PNone = False"
| "truthy (PBool b) = b"
| "truthy (PInt i) = (i \<noteq> 0)"
| "truthy (PFloat x) = (x \<noteq> 0)"
| "truthy (PStr s) = (s \<noteq> [])"
| "truthy (PList xs) = (xs \<noteq> [])"
| "truthy (PDict kvs) = (kvs \<noteq> [])"

text \<open>
  The validation of the fields of \<^verbatim>\<open>QueryResult\<close> by pydantic (version 2, as litellm
  requires): a \<^verbatim>\<open>str\<close> field takes a string only; a \<^verbatim>\<open>bool\<close> field takes a boolean,
  the numbers 0 and 1 and the words pydantic lists.
\<close>

fun validate_str :: "pyval \<Rightarrow> py_error + string" where
  "validate_str (PStr s) = Inr s"
| "validate_str v = Inl ValidationError"

fun validate_bool :: "pyval \<Rightarrow> py_error + bool" where
  "validate_bool (PBool b) = Inr b"
| "validate_bool (PInt i) =
     (if i = 0 then Inr False else if i = 1 then Inr True else Inl ValidationError)"
| "validate_bool (PFloat x) =
     (if x = 0 then Inr False else if x = 1 then Inr True else Inl ValidationError)"
| "validate_bool (PStr s) =
     (if lower s \<in> set [''0'', ''off'', ''f'', ''false'', ''n'', ''no''] then Inr False
      else if lower s \<in> set [''1'', ''on'', ''t'', ''true'', ''y'', ''yes''] then Inr True
      else Inl ValidationError)"
| "validate_bool v = Inl ValidationError"

definition make_query_result :: "pyval \<Rightarrow> pyval \<Rightarrow> pyval \<Rightarrow> document \<Rightarrow> py_error + query_result" where
  "make_query_result c r i doc =
     (case validate_str c of
        Inl e \<Rightarrow> Inl e
      | Inr c' \<Rightarrow>
          (case validate_str r of
             Inl e \<Rightarrow> Inl e
           | Inr r' \<Rightarrow>
               (case validate_bool i of
                  Inl e \<Rightarrow> Inl e
                | Inr i' \<Rightarrow>
                    Inr \<lparr>qr_content = c', qr_reasoning = r', qr_is_irrelevant = i',
                         qr_document = doc\<rparr>)))"

section \<open>Query dispatcher\<close>

text \<open>
  The fields of \<^verbatim>\<open>ReagClient\<close> the queries read. The memory of the client is part of the
  state below, since a query updates it.
\<close>

record client =
  model :: string
  system :: string
  batch_size :: int

text \<open>
  What a query changes: the memory of the client, the state of the backend, and the
  requests issued so far, oldest first.
\<close>

record 'b state =
  memory :: memory
  remote :: 'b
  sent :: "request list"

definition format_doc :: "'b env \<Rightarrow> document \<Rightarrow> string" where
  "format_doc E doc =
     ''Name: '' @ name doc @ [CHR 0x0A] @ ''Metadata: '' @ str_metadata E (metadata doc)
       @ [CHR 0x0A] @ ''Content: '' @ content doc"

definition user_message :: "string \<Rightarrow> message" where
  "user_message prompt = \<lparr>msg_role = ''user'', msg_content = PStr prompt\<rparr>"

definition assistant_message :: "pyval \<Rightarrow> message" where
  "assistant_message c = \<lparr>msg_role = ''assistant'', msg_content = c\<rparr>"

text \<open>
  \<^verbatim>\<open>[{"role": "system", "content": system}] + history + [{"role": "user", "content": prompt}]\<close>
  with \<^verbatim>\<open>system = f"{self.system}\n\n# Available source\n\n{format_doc(document)}"\<close>.
\<close>

definition system_message :: "'b env \<Rightarrow> client \<Rightarrow> document \<Rightarrow> message" where
  "system_message E c doc =
     \<lparr>msg_role = ''system'',
      msg_content = PStr (system c @ [CHR 0x0A, CHR 0x0A] @ ''# Available source''
                          @ [CHR 0x0A, CHR 0x0A] @ format_doc E doc)\<rparr>"

definition build_messages :: "'b env \<Rightarrow> client \<Rightarrow> memory \<Rightarrow> string \<Rightarrow> document \<Rightarrow> message list" where
  "build_messages E c mem prompt doc =
     [system_message E c doc] @ get_history mem @ [user_message prompt]"

text \<open>
  The tasks of one batch and \<^verbatim>\<open>asyncio.gather\<close>: every request of the batch is issued,
  each built with the history as it is before the batch; the responses come back in the
  order of the tasks. When a task raises, \<^verbatim>\<open>gather\<close> raises (here: the exception of the
  first such task in the order of the batch).
\<close>

fun gather :: "'b env \<Rightarrow> client \<Rightarrow> string \<Rightarrow> memory \<Rightarrow> document list \<Rightarrow> 'b \<Rightarrow> request list
    \<Rightarrow> (py_error + response list) \<times> 'b \<times> request list" where
  "gather E c prompt mem [] b issued = (Inr [], b, issued)"
| "gather E c prompt mem (doc # docs) b issued =
     (let req = \<lparr>req_model = model c, req_messages = build_messages E c mem prompt doc,
                 req_stream = False\<rparr>;
          (r, b') = acompletion E b req;
          (rs, b'', issued') = gather E c prompt mem docs b' (issued @ [req])
      in (case r of
            Inl e \<Rightarrow> (Inl e, b'', issued')
          | Inr x \<Rightarrow> (case rs of Inl e \<Rightarrow> (Inl e, b'', issued') | Inr xs \<Rightarrow> (Inr (x # xs), b'', issued'))))"

text \<open>
  The body of the loop over \<^verbatim>\<open>zip(batch, batch_responses)\<close>, for one document and its
  response: the list of results and the memory after it, or the exception that leaves the
  loop (the memory keeps what was added before). \<^verbatim>\<open>json.JSONDecodeError\<close> is the one
  exception the loop catches: the response is skipped.
\<close>

definition process_response ::
  "'b env \<Rightarrow> client \<Rightarrow> string \<Rightarrow> document \<Rightarrow> response \<Rightarrow> query_result list \<Rightarrow> memory
    \<Rightarrow> (py_error + query_result list) \<times> memory" where
  "process_response E c prompt doc resp results mem =
     (case resp of
        [] \<Rightarrow> (Inl IndexError, mem)
      | message_content # others \<Rightarrow>
          if prefix ''ollama/'' (model c) then
            (case message_content of
               None \<Rightarrow> (Inl TypeError, mem)
             | Some text \<Rightarrow>
                 (case extract_think_content text of
                    (cont, reasoning, is_irrelevant) \<Rightarrow>
                      (Inr (results @ [\<lparr>qr_content = cont, qr_reasoning = reasoning,
                                        qr_is_irrelevant = is_irrelevant, qr_document = doc\<rparr>]),
                       add_message (add_message mem (user_message prompt))
                         (assistant_message (PStr cont)))))
          else
            (case (case message_content of None \<Rightarrow> Inr PNone | Some text \<Rightarrow> json_loads E text) of
               Inl e \<Rightarrow> if e = JSONDecodeError then (Inr results, mem) else (Inl e, mem)
             | Inr data \<Rightarrow>
                 (case py_getitem data ''source'' of
                    Inl e \<Rightarrow> (Inl e, mem)
                  | Inr src \<Rightarrow>
                      (case py_get src ''is_irrelevant'' (PBool True) of
                         Inl e \<Rightarrow> (Inl e, mem)
                       | Inr irrelevant \<Rightarrow>
                           if truthy irrelevant then (Inr results, mem)
                           else
                             (case py_get src ''content'' (PStr []) of
                                Inl e \<Rightarrow> (Inl e, mem)
                              | Inr cont \<Rightarrow>
                                  (let mem' = add_message (add_message mem (user_message prompt))
                                                (assistant_message cont)
                                   in (case py_get src ''reasoning'' (PStr []) of
                                         Inl e \<Rightarrow> (Inl e, mem')
                                       | Inr reasoning \<Rightarrow>
                                           (case py_get src ''is_irrelevant'' (PBool False) of
                                              Inl e \<Rightarrow> (Inl e, mem')
                                            | Inr irrelevant' \<Rightarrow>
                                                (case make_query_result cont reasoning irrelevant' doc of
                                                   Inl e \<Rightarrow> (Inl e, mem')
                                                 | Inr qr \<Rightarrow> (Inr (results @ [qr]), mem'))))))))))"

fun process_responses ::
  "'b env \<Rightarrow> client \<Rightarrow> string \<Rightarrow> (document \<times> response) list \<Rightarrow> query_result list \<Rightarrow> memory
    \<Rightarrow> (py_error + query_result list) \<times> memory" where
  "process_responses E c prompt [] results mem = (Inr results, mem)"
| "process_responses E c prompt ((doc, resp) # rest) results mem =
     (case process_response E c prompt doc resp results mem of
        (Inl e, mem') \<Rightarrow> (Inl e, mem')
      | (Inr results', mem') \<Rightarrow> process_responses E c prompt rest results' mem')"

text \<open>The loop over the batches: a batch starts when the one before it is processed.\<close>

fun run_batches ::
  "'b env \<Rightarrow> client \<Rightarrow> string \<Rightarrow> document list list \<Rightarrow> query_result list \<Rightarrow> 'b state
    \<Rightarrow> (py_error + query_result list) \<times> 'b state" where
  "run_batches E c prompt [] results st = (Inr results, st)"
| "run_batches E c prompt (batch # rest) results st =
     (case gather E c prompt (memory st) batch (remote st) (sent st) of
        (Inl e, b, issued) \<Rightarrow> (Inl e, st\<lparr>remote := b, sent := issued\<rparr>)
      | (Inr batch_responses, b, issued) \<Rightarrow>
          (case process_responses E c prompt (zip batch batch_responses) results (memory st) of
             (Inl e, mem) \<Rightarrow> (Inl e, \<lparr>memory = mem, remote = b, sent = issued\<rparr>)
           | (Inr results', mem) \<Rightarrow>
               run_batches E c prompt rest results' \<lparr>memory = mem, remote = b, sent = issued\<rparr>))"

text \<open>
  The \<^verbatim>\<open>filter\<close> entry of \<^verbatim>\<open>options\<close>: a list of filters, one filter, or something
  else, which is ignored. A filter given as a dictionary is taken as the
  \<^verbatim>\<open>MetadataFilter\<close> it validates to.
\<close>

datatype raw_filters = FilterList "metadata_filter list" | FilterDict metadata_filter | FilterOther

fun filters_of_options :: "raw_filters option \<Rightarrow> metadata_filter list option" where
  "filters_of_options None = None"
| "filters_of_options (Some (FilterList fs)) = Some fs"
| "filters_of_options (Some (FilterDict f)) = Some [f]"
| "filters_of_options (Some FilterOther) = None"

text \<open>
  \<^verbatim>\<open>_batch_query\<close>: every exception of the body is raised again as \<open>QueryFailed\<close>.
\<close>

definition batch_query ::
  "'b env \<Rightarrow> client \<Rightarrow> string \<Rightarrow> document list \<Rightarrow> raw_filters option \<Rightarrow> 'b state
    \<Rightarrow> (py_error + query_result list) \<times> 'b state" where
  "batch_query E c prompt documents options st =
     (case filter_documents_by_metadata E documents (filters_of_options options) of
        Inl e \<Rightarrow> (Inl (QueryFailed e), st)
      | Inr filtered_documents \<Rightarrow>
          (case batches (batch_size c) filtered_documents of
             Inl e \<Rightarrow> (Inl (QueryFailed e), st)
           | Inr bs \<Rightarrow>
               (case run_batches E c prompt bs [] st of
                  (Inl e, st') \<Rightarrow> (Inl (QueryFailed e), st')
                | (Inr results, st') \<Rightarrow> (Inr results, st'))))"

section \<open>Streaming accumulator\<close>

text \<open>
  The loop over the chunks of the stream: the records yielded so far, the text
  accumulated so far, and the exception that ends the iteration, if any.
\<close>

fun consume :: "chunk list \<Rightarrow> string \<Rightarrow> streaming_query_result list
    \<Rightarrow> streaming_query_result list \<times> string \<times> py_error option" where
  "consume [] full_response yielded = (yielded, full_response, None)"
| "consume (ch # chs) full_response yielded =
     (case ch of
        [] \<Rightarrow> (yielded, full_response, Some IndexError)
      | delta # others \<Rightarrow>
          (let chunk_content = (case delta of None \<Rightarrow> [] | Some s \<Rightarrow> s)
           in consume chs (full_response @ chunk_content)
                (yielded @ [\<lparr>sq_content = chunk_content, sq_reasoning = None,
                             sq_is_irrelevant = None, sq_document = None\<rparr>])))"

text \<open>
  \<^verbatim>\<open>_streaming_query\<close>, iterated to its end: the records it yields, the exception that
  ends the iteration (\<open>None\<close> when the generator returns), and the state after it.
\<close>

definition streaming_query ::
  "'b env \<Rightarrow> client \<Rightarrow> string \<Rightarrow> document list \<Rightarrow> raw_filters option \<Rightarrow> 'b state
    \<Rightarrow> (streaming_query_result list \<times> py_error option) \<times> 'b state" where
  "streaming_query E c prompt documents options st =
     (case filter_documents_by_metadata E documents (filters_of_options options) of
        Inl e \<Rightarrow> (([], Some e), st)
      | Inr filtered_documents \<Rightarrow>
          (case filtered_documents of
             [] \<Rightarrow> (([], Some IndexError), st)
           | first # others \<Rightarrow>
               (let req = \<lparr>req_model = model c,
                           req_messages = build_messages E c (memory st) prompt first,
                           req_stream = True\<rparr>;
                    (r, b) = acompletion_stream E (remote st) req;
                    st' = st\<lparr>remote := b, sent := sent st @ [req]\<rparr>
                in (case r of
                      Inl e \<Rightarrow> (([], Some e), st')
                    | Inr (chunks, broken) \<Rightarrow>
                        (case consume chunks [] [] of
                           (yielded, full_response, Some e) \<Rightarrow> ((yielded, Some e), st')
                         | (yielded, full_response, None) \<Rightarrow>
                             (case broken of
                                Some e \<Rightarrow> ((yielded, Some e), st')
                              | None \<Rightarrow>
                                  ((yielded, None),
                                   st'\<lparr>memory :=
                                         add_message (add_message (memory st') (user_message prompt))
                                           (assistant_message (PStr full_response))\<rparr>)))))))"

text \<open>\<^verbatim>\<open>query\<close> chooses the path by its \<^verbatim>\<open>stream\<close> argument.\<close>

definition query ::
  "'b env \<Rightarrow> client \<Rightarrow> string \<Rightarrow> document list \<Rightarrow> raw_filters option \<Rightarrow> bool \<Rightarrow> 'b state
    \<Rightarrow> ((streaming_query_result list \<times> py_error option) + (py_error + query_result list)) \<times> 'b state" where
  "query E c prompt documents options stream st =
     (if stream then (case streaming_query E c prompt documents options st of (out, st') \<Rightarrow> (Inl out, st'))
      else (case batch_query E c prompt documents options st of (out, st') \<Rightarrow> (Inr out, st')))"

section \<open>The operator semantics of the specification\<close>

text \<open>
  Section 4.1 of the specification, in its words: equals, not-equals, contains (substring,
  string-typed values only), starts-with, ends-with, regex-match (matches from the start
  of the string), and the four orderings (numeric or string ordering per the stored
  value's type). A type-mismatched comparison and an unrecognized operator are false:
  every operator, not-equals included, is false of an integer and a string.
\<close>

definition spec_operator_holds :: "'b env \<Rightarrow> string \<Rightarrow> pvalue \<Rightarrow> pvalue \<Rightarrow> bool" where
  "spec_operator_holds E op v w =
     (if op = ''equals'' then v = w
      else if op = ''notEquals'' then
        (case (v, w) of (VInt a, VInt b) \<Rightarrow> a \<noteq> b | (VStr s, VStr t) \<Rightarrow> s \<noteq> t | _ \<Rightarrow> False)
      else if op = ''contains'' then
        (case (v, w) of (VStr s, VStr t) \<Rightarrow> sublist t s | _ \<Rightarrow> False)
      else if op = ''startsWith'' then
        (case (v, w) of (VStr s, VStr t) \<Rightarrow> prefix t s | _ \<Rightarrow> False)
      else if op = ''endsWith'' then
        (case (v, w) of (VStr s, VStr t) \<Rightarrow> suffix t s | _ \<Rightarrow> False)
      else if op = ''regex'' then
        (case (v, w) of (VStr s, VStr t) \<Rightarrow> re_match E t s = Inr True | _ \<Rightarrow> False)
      else if op = ''greaterThan'' then
        (case (v, w) of (VInt a, VInt b) \<Rightarrow> b < a | (VStr s, VStr t) \<Rightarrow> str_less t s | _ \<Rightarrow> False)
      else if op = ''lessThan'' then
        (case (v, w) of (VInt a, VInt b) \<Rightarrow> a < b | (VStr s, VStr t) \<Rightarrow> str_less s t | _ \<Rightarrow> False)
      else if op = ''greaterThanOrEqual'' then
        (case (v, w) of (VInt a, VInt b) \<Rightarrow> b \<le> a
                      | (VStr s, VStr t) \<Rightarrow> s = t \<or> str_less t s | _ \<Rightarrow> False)
      else if op = ''lessThanOrEqual'' then
        (case (v, w) of (VInt a, VInt b) \<Rightarrow> a \<le> b
                      | (VStr s, VStr t) \<Rightarrow> s = t \<or> str_less s t | _ \<Rightarrow> False)
      else False)"

text \<open>
  A document satisfies a filter: it has metadata with the filter's key, and the operator
  (equality when the filter has none) holds of the stored value and the filter's value.
\<close>

definition spec_satisfies :: "'b env \<Rightarrow> document \<Rightarrow> metadata_filter \<Rightarrow> bool" where
  "spec_satisfies E doc f =
     (case metadata doc of
        None \<Rightarrow> False
      | Some m \<Rightarrow>
          (case map_of m (key f) of
             None \<Rightarrow> False
           | Some v \<Rightarrow>
               spec_operator_holds E
                 (case operator f of None \<Rightarrow> ''equals'' | Some s \<Rightarrow> s) v (fvalue f)))"

definition recognized_operators :: "string list" where
  "recognized_operators =
     [''equals'', ''notEquals'', ''contains'', ''startsWith'', ''endsWith'', ''regex'',
      ''greaterThan'', ''lessThan'', ''greaterThanOrEqual'', ''lessThanOrEqual'']"

text \<open>
  The two points where the evaluator reads a filter otherwise than Section 4.1:
  \<^item> \<^verbatim>\<open>f.operator or "equals"\<close> takes an empty operator string for an absent operator;
  \<^item> \<^verbatim>\<open>val != f.value\<close> is true of an integer and a string.
  \<open>satisfies_as_evaluated\<close> is Section 4.1 with these two readings.
\<close>

definition empty_as_absent :: "metadata_filter \<Rightarrow> metadata_filter" where
  "empty_as_absent f = (if operator f = Some [] then f\<lparr>operator := None\<rparr> else f)"

fun same_type :: "pvalue \<Rightarrow> pvalue \<Rightarrow> bool" where
  "same_type (VStr s) (VStr t) = True"
| "same_type (VInt a) (VInt b) = True"
| "same_type v w = False"

definition not_equals_across_types :: "document \<Rightarrow> metadata_filter \<Rightarrow> bool" where
  "not_equals_across_types doc f =
     (operator f = Some ''notEquals''
      \<and> (case metadata doc of
            None \<Rightarrow> False
          | Some m \<Rightarrow>
              (case map_of m (key f) of
                 None \<Rightarrow> False
               | Some v \<Rightarrow> \<not> same_type v (fvalue f))))"

definition satisfies_as_evaluated :: "'b env \<Rightarrow> document \<Rightarrow> metadata_filter \<Rightarrow> bool" where
  "satisfies_as_evaluated E doc f =
     (spec_satisfies E doc (empty_as_absent f) \<or> not_equals_across_types doc f)"

section \<open>Notions used to state the properties\<close>

text \<open>
  What a response contributes to the list of results, for the document it answers: the
  results that \<open>process_response\<close> appends (the empty list when it raises).
\<close>

definition retained :: "'b env \<Rightarrow> client \<Rightarrow> document \<Rightarrow> response \<Rightarrow> query_result list" where
  "retained E c doc resp =
     (case fst (process_response E c [] doc resp [] \<lparr>history = []\<rparr>) of
        Inl e \<Rightarrow> []
      | Inr new \<Rightarrow> new)"

text \<open>The two messages a retained result adds to the memory.\<close>

definition exchange :: "string \<Rightarrow> query_result \<Rightarrow> message list" where
  "exchange prompt qr = [user_message prompt, assistant_message (PStr (qr_content qr))]"

definition retain :: "memory \<Rightarrow> string \<Rightarrow> query_result \<Rightarrow> memory" where
  "retain mem prompt qr =
     add_message (add_message mem (user_message prompt)) (assistant_message (PStr (qr_content qr)))"

text \<open>
  The answers of the backend to a sequence of requests, each sent in the state the one
  before it left, and the requests of one batch.
\<close>

fun answers :: "'b env \<Rightarrow> 'b \<Rightarrow> request list \<Rightarrow> (py_error + response) list \<times> 'b" where
  "answers E b [] = ([], b)"
| "answers E b (q # qs) =
     (case acompletion E b q of
        (r, b') \<Rightarrow> (case answers E b' qs of (rs, b'') \<Rightarrow> (r # rs, b'')))"

definition batch_requests :: "'b env \<Rightarrow> client \<Rightarrow> string \<Rightarrow> memory \<Rightarrow> document list \<Rightarrow> request list" where
  "batch_requests E c prompt mem docs =
     map (\<lambda>doc. \<lparr>req_model = model c, req_messages = build_messages E c mem prompt doc,
                  req_stream = False\<rparr>) docs"


text \<open>A member of a dictionary, or a default: the value of \<^verbatim>\<open>d.get(k, default)\<close>.\<close>

definition member_or :: "(string \<times> pyval) list \<Rightarrow> string \<Rightarrow> pyval \<Rightarrow> pyval" where
  "member_or src k dflt = (case map_of src k of None \<Rightarrow> dflt | Some v \<Rightarrow> v)"

section \<open>A scripted environment\<close>

text \<open>
  An environment in the manner of the mocks of \<^verbatim>\<open>test/client_test.py\<close>, to run the
  functions on concrete inputs: a pattern matches as a literal prefix, \<open>json_loads\<close>
  reads a table, and the backend answers its \<open>n\<close>-th request with the \<open>n\<close>-th response
  of a list.
\<close>

definition sample_env :: "(string \<times> pyval) list \<Rightarrow> response list \<Rightarrow> chunk list \<Rightarrow> nat env" where
  "sample_env table rs chunks =
     \<lparr>re_match = (\<lambda>p s. Inr (prefix p s)),
      json_loads = (\<lambda>s. case map_of table s of None \<Rightarrow> Inl JSONDecodeError | Some v \<Rightarrow> Inr v),
      str_metadata = (\<lambda>m. case m of None \<Rightarrow> ''None'' | Some d \<Rightarrow> ''{...}''),
      acompletion = (\<lambda>n req. (if n < length rs then Inr (rs ! n)
                                else Inl (BackendError ''no response''), Suc n)),
      acompletion_stream = (\<lambda>n req. (Inr (chunks, None), Suc n))\<rparr>"

definition doc_sa1 :: document where
  "doc_sa1 =
     \<lparr>name = ''Superagent'', content = ''Superagent is a workspace for AI-agents.'',
      metadata = Some [(''source'', VStr ''web''), (''id'', VStr ''sa-1''),
                       (''version'', VInt 1)]\<rparr>"

text \<open>
  The bodies of the mocks and the empty object, with what \<^verbatim>\<open>json.loads\<close> makes of
  them. A string outside the table is taken as one that \<^verbatim>\<open>json.loads\<close> rejects; the
  runs below use only plain sentences and marked-up text for such strings.
\<close>

definition relevant_body :: string where
  \<open>relevant_body = ''{"source": {"content": "Superagent is a workspace for AI-agents.", "reasoning": "The document describes Superagent.", "is_irrelevant": false}}''\<close>

definition irrelevant_body :: string where
  \<open>irrelevant_body = ''{"source": {"content": "", "reasoning": "The document is not relevant.", "is_irrelevant": true}}''\<close>

definition sample_table :: "(string \<times> pyval) list" where
  \<open>sample_table =
     [(relevant_body,
       PDict [(''source'', PDict [(''content'', PStr ''Superagent is a workspace for AI-agents.''),
                                  (''reasoning'', PStr ''The document describes Superagent.''),
                                  (''is_irrelevant'', PBool False)])]),
      (irrelevant_body,
       PDict [(''source'', PDict [(''content'', PStr []),
                                  (''reasoning'', PStr ''The document is not relevant.''),
                                  (''is_irrelevant'', PBool True)])]),
      (''{}'', PDict [])]\<close>

text \<open>
  The text of a reasoning model that says, with the markers of the prompt, that the
  document is irrelevant.
\<close>

definition cooking_text :: string where
  "cooking_text = ''<think>The document is about cooking.</think>'' @ [CHR 0x0A]
     @ ''**isIrrelevant:** true'' @ [CHR 0x0A] @ ''**Answer:** ''"

definition sample_client :: client where
  "sample_client = \<lparr>model = ''gpt-4o-mini'', system = ''You are a helpful assistant.'', batch_size = 20\<rparr>"

definition ollama_client :: client where
  "ollama_client = sample_client\<lparr>model := ''ollama/deepseek-r1''\<rparr>"

text \<open>A client state with an empty memory and a backend that has answered nothing.\<close>

definition fresh :: "nat state" where
  "fresh = \<lparr>memory = \<lparr>history = []\<rparr>, remote = 0, sent = []\<rparr>"

definition doc_sa2 :: document where
  "doc_sa2 =
     \<lparr>name = ''Superagent'', content = ''Superagent is a workspace for AI-agents.'',
      metadata = Some [(''source'', VStr ''web''), (''id'', VStr ''sa-2''),
                       (''version'', VInt 2)]\<rparr>"

definition doc_guide :: document where
  "doc_guide =
     \<lparr>name = ''Guide'', content = ''How to set up Superagent.'', metadata = None\<rparr>"


definition doc_recipe :: document where
  "doc_recipe =
     \<lparr>name = ''Irrelevant Doc'', content = ''Unrelated content about cooking recipes.'',
      metadata = Some [(''type'', VStr ''recipe''), (''cuisine'', VStr ''italian'')]\<rparr>"

section \<open>Properties of the metadata filter evaluator\<close>

lemma str_op_True:
  "str_op test v w = Inr True
     \<longleftrightarrow> (case (v, w) of (VStr s, VStr t) \<Rightarrow> test t s = Inr True | _ \<Rightarrow> False)"
  by (cases v; cases w) simp_all

lemma py_lt_True:
  "py_lt v w = Inr True
     \<longleftrightarrow> (case (v, w) of (VInt a, VInt b) \<Rightarrow> a < b
                        | (VStr s, VStr t) \<Rightarrow> str_less s t | _ \<Rightarrow> False)"
  by (cases v; cases w) simp_all

lemma py_le_True:
  "py_le v w = Inr True
     \<longleftrightarrow> (case (v, w) of (VInt a, VInt b) \<Rightarrow> a \<le> b
                        | (VStr s, VStr t) \<Rightarrow> s = t \<or> str_less s t | _ \<Rightarrow> False)"
  by (cases v; cases w) simp_all

lemma apply_operator_True:
  "apply_operator E op v w = Inr True
     \<longleftrightarrow> spec_operator_holds E op v w \<or> (op = ''notEquals'' \<and> \<not> same_type v w)"
  unfolding apply_operator_def spec_operator_holds_def py_gt_def py_ge_def
  by (cases v; cases w) (auto simp: str_op_True py_lt_True py_le_True)

lemma passes_filter_True:
  "passes_filter E doc f = Inr True \<longleftrightarrow> satisfies_as_evaluated E doc f"
  unfolding passes_filter_def spec_satisfies_def operator_or_equals_def empty_as_absent_def
    satisfies_as_evaluated_def not_equals_across_types_def
  by (auto simp: apply_operator_True split: option.splits)

lemma all_pass_True:
  "all_pass E doc fs = Inr True
     \<longleftrightarrow> list_all (satisfies_as_evaluated E doc) fs"
proof (induction fs)
  case Nil
  show ?case by simp
next
  case (Cons f fs)
  show ?case
  proof (cases "passes_filter E doc f")
    case (Inl e)
    with passes_filter_True [of E doc f] show ?thesis by simp
  next
    case (Inr b)
    with passes_filter_True [of E doc f] Cons.IH show ?thesis by auto
  qed
qed

lemma keep_passing_result:
  "keep_passing E fs docs = Inr r
     \<Longrightarrow> r = filter (\<lambda>d. list_all (satisfies_as_evaluated E d) fs) docs"
proof (induction docs arbitrary: r)
  case Nil
  then show ?case by simp
next
  case (Cons d docs)
  from Cons.prems obtain b rest where
    b: "all_pass E d fs = Inr b" and rest: "keep_passing E fs docs = Inr rest"
    and r: "r = (if b then d # rest else rest)"
    by (auto split: sum.splits)
  from b all_pass_True [of E d fs]
  have "b = list_all (satisfies_as_evaluated E d) fs" by auto
  with Cons.IH [OF rest] r show ?case by simp
qed

lemma keep_passing_single:
  "keep_passing E fs [D] = Inr [D] \<longleftrightarrow> all_pass E D fs = Inr True"
  by (auto split: sum.splits)

lemma apply_operator_unrecognized:
  "op \<notin> set recognized_operators \<Longrightarrow> apply_operator E op v w = Inr False"
  by (simp add: apply_operator_def recognized_operators_def)

lemma passes_filter_unrecognized:
  assumes "operator f = Some op" "op \<noteq> []" "op \<notin> set recognized_operators"
  shows "passes_filter E D f = Inr False"
  using assms
  by (simp add: passes_filter_def operator_or_equals_def apply_operator_unrecognized
      split: option.splits)

text \<open>
  C2 (the code raises where the claim says false). An integer metadata value ordered
  against a string filter value raises \<^verbatim>\<open>TypeError\<close>, in \<^verbatim>\<open>passes_filter\<close> and so in
  \<^verbatim>\<open>_filter_documents_by_metadata\<close>; so does \<^verbatim>\<open>contains\<close> with a string metadata value
  and an integer filter value.
\<close>

theorem order_mismatch_raises:
  "passes_filter E doc_sa1
      \<lparr>key = ''version'', fvalue = VStr ''2'', operator = Some ''greaterThan''\<rparr>
     = Inl TypeError
   \<and> filter_documents_by_metadata E [doc_sa1]
        (Some [\<lparr>key = ''version'', fvalue = VStr ''2'', operator = Some ''greaterThan''\<rparr>])
     = Inl TypeError
   \<and> passes_filter E doc_sa1 \<lparr>key = ''id'', fvalue = VInt 1, operator = Some ''contains''\<rparr>
     = Inl TypeError"
  by (simp add: filter_documents_by_metadata_def passes_filter_def
      operator_or_equals_def apply_operator_def doc_sa1_def py_gt_def)

text \<open>
  C4, as stated, fails at two filters. A filter whose operator is the empty string: the
  string is none of the ten operators, and \<^verbatim>\<open>f.operator or "equals"\<close> evaluates the
  filter as an equality. A \<^verbatim>\<open>notEquals\<close> filter with a string value on an integer
  metadata value: the comparison is type-mismatched, and \<^verbatim>\<open>val != f.value\<close> is true. In
  both cases the evaluator accepts a document that does not satisfy the filter under
  Section 4.1.
\<close>

theorem empty_operator_counterexample:
  "[] \<notin> set recognized_operators
   \<and> filter_documents_by_metadata (sample_env [] [] []) [doc_sa1]
        (Some [\<lparr>key = ''id'', fvalue = VStr ''sa-1'', operator = Some []\<rparr>]) = Inr [doc_sa1]
   \<and> \<not> spec_satisfies (sample_env [] [] []) doc_sa1
          \<lparr>key = ''id'', fvalue = VStr ''sa-1'', operator = Some []\<rparr>
   \<and> filter_documents_by_metadata (sample_env [] [] []) [doc_sa1]
        (Some [\<lparr>key = ''version'', fvalue = VStr ''1'', operator = Some ''notEquals''\<rparr>])
       = Inr [doc_sa1]
   \<and> \<not> spec_satisfies (sample_env [] [] []) doc_sa1
          \<lparr>key = ''version'', fvalue = VStr ''1'', operator = Some ''notEquals''\<rparr>"
  by (simp add: recognized_operators_def filter_documents_by_metadata_def passes_filter_def
      operator_or_equals_def apply_operator_def doc_sa1_def spec_satisfies_def
      spec_operator_holds_def)

text \<open>
  C4, amended: the evaluator accepts a document \<open>D\<close> exactly when \<open>D\<close> satisfies every
  filter under Section 4.1 read with two additions (an empty operator string is an absent
  operator; not-equals holds of two values of different types), and when it returns, it
  returns the documents that do, in their order; a document with no metadata, or without
  the filter's key, fails the filter; a non-empty operator that is none of the ten is
  false; an absent or empty filter list accepts every document. The third conjunct spells
  the two additions out.
\<close>

theorem evaluator_accepts_iff_satisfies:
  "(filter_documents_by_metadata E [D] F = Inr [D]
      \<longleftrightarrow> list_all (satisfies_as_evaluated E D) (case F of None \<Rightarrow> [] | Some fs \<Rightarrow> fs))
   \<and> (filter_documents_by_metadata E docs F = Inr kept \<longrightarrow>
        kept = filter (\<lambda>d. list_all (satisfies_as_evaluated E d)
                 (case F of None \<Rightarrow> [] | Some fs \<Rightarrow> fs)) docs)
   \<and> (satisfies_as_evaluated E D f
        \<longleftrightarrow> spec_satisfies E D (if operator f = Some [] then f\<lparr>operator := None\<rparr> else f)
            \<or> (operator f = Some ''notEquals''
                \<and> (\<exists>m v. metadata D = Some m \<and> map_of m (key f) = Some v
                       \<and> ((\<exists>a t. v = VInt a \<and> fvalue f = VStr t)
                          \<or> (\<exists>s b. v = VStr s \<and> fvalue f = VInt b)))))
   \<and> (metadata D = None \<or> (\<exists>m. metadata D = Some m \<and> map_of m (key f) = None)
        \<longrightarrow> passes_filter E D f = Inr False \<and> \<not> spec_satisfies E D f
            \<and> \<not> satisfies_as_evaluated E D f)
   \<and> (operator f = Some op \<and> op \<noteq> [] \<and> op \<notin> set recognized_operators
        \<longrightarrow> passes_filter E D f = Inr False)
   \<and> filter_documents_by_metadata E docs None = Inr docs
   \<and> filter_documents_by_metadata E docs (Some []) = Inr docs"
proof -
  let ?sat = "\<lambda>d. list_all (satisfies_as_evaluated E d) (case F of None \<Rightarrow> [] | Some fs \<Rightarrow> fs)"
  have accept: "filter_documents_by_metadata E [D] F = Inr [D] \<longleftrightarrow> ?sat D"
  proof (cases F)
    case None
    then show ?thesis by (simp add: filter_documents_by_metadata_def)
  next
    case (Some fs)
    then show ?thesis
      by (simp add: filter_documents_by_metadata_def keep_passing_single all_pass_True
          del: keep_passing.simps)
  qed
  have kept: "filter_documents_by_metadata E docs F = Inr kept \<longrightarrow> kept = filter ?sat docs"
  proof (cases F)
    case None
    then show ?thesis by (auto simp: filter_documents_by_metadata_def)
  next
    case (Some fs)
    then show ?thesis
      by (auto simp: filter_documents_by_metadata_def dest: keep_passing_result)
  qed
  have across: "not_equals_across_types D f
      \<longleftrightarrow> operator f = Some ''notEquals''
          \<and> (\<exists>m v. metadata D = Some m \<and> map_of m (key f) = Some v
                 \<and> ((\<exists>a t. v = VInt a \<and> fvalue f = VStr t)
                    \<or> (\<exists>s b. v = VStr s \<and> fvalue f = VInt b)))"
  proof -
    have "\<not> same_type v w
        \<longleftrightarrow> (\<exists>a t. v = VInt a \<and> w = VStr t) \<or> (\<exists>s b. v = VStr s \<and> w = VInt b)" for v w
      by (cases v; cases w) simp_all
    then show ?thesis
      by (auto simp: not_equals_across_types_def split: option.splits)
  qed
  have reading: "satisfies_as_evaluated E D f
        \<longleftrightarrow> spec_satisfies E D (if operator f = Some [] then f\<lparr>operator := None\<rparr> else f)
            \<or> (operator f = Some ''notEquals''
                \<and> (\<exists>m v. metadata D = Some m \<and> map_of m (key f) = Some v
                       \<and> ((\<exists>a t. v = VInt a \<and> fvalue f = VStr t)
                          \<or> (\<exists>s b. v = VStr s \<and> fvalue f = VInt b))))"
    unfolding satisfies_as_evaluated_def across empty_as_absent_def by (rule refl)
  have nokey: "metadata D = None \<or> (\<exists>m. metadata D = Some m \<and> map_of m (key f) = None)
        \<longrightarrow> passes_filter E D f = Inr False \<and> \<not> spec_satisfies E D f
            \<and> \<not> satisfies_as_evaluated E D f"
    by (auto simp: passes_filter_def spec_satisfies_def satisfies_as_evaluated_def
        not_equals_across_types_def empty_as_absent_def)
  have unrec: "operator f = Some op \<and> op \<noteq> [] \<and> op \<notin> set recognized_operators
        \<longrightarrow> passes_filter E D f = Inr False"
    using passes_filter_unrecognized [of f op E D] by blast
  have none: "filter_documents_by_metadata E docs None = Inr docs"
    and nil: "filter_documents_by_metadata E docs (Some []) = Inr docs"
    by (simp_all add: filter_documents_by_metadata_def)
  from accept kept reading nokey unrec none nil show ?thesis by blast
qed

text \<open>
  The amended C4 at the document of the tests: it passes a \<^verbatim>\<open>startsWith\<close> and a
  \<^verbatim>\<open>greaterThanOrEqual\<close> filter and a copy without metadata does not; it passes
  \<^verbatim>\<open>notEquals\<close> on its integer version against a string and fails it against the
  integer; it has no \<^verbatim>\<open>url\<close>; \<^verbatim>\<open>between\<close> is no operator.
\<close>

theorem evaluator_accepts_iff_satisfies_witness:
  "filter_documents_by_metadata (sample_env [] [] []) [doc_sa1]
      (Some [\<lparr>key = ''id'', fvalue = VStr ''sa'', operator = Some ''startsWith''\<rparr>,
             \<lparr>key = ''version'', fvalue = VInt 1, operator = Some ''greaterThanOrEqual''\<rparr>])
     = Inr [doc_sa1]
   \<and> filter_documents_by_metadata (sample_env [] [] []) [doc_sa1, doc_sa1\<lparr>metadata := None\<rparr>]
      (Some [\<lparr>key = ''id'', fvalue = VStr ''sa'', operator = Some ''startsWith''\<rparr>,
             \<lparr>key = ''version'', fvalue = VInt 1, operator = Some ''greaterThanOrEqual''\<rparr>])
     = Inr [doc_sa1]
   \<and> satisfies_as_evaluated (sample_env [] [] []) doc_sa1
        \<lparr>key = ''version'', fvalue = VStr ''1'', operator = Some ''notEquals''\<rparr>
   \<and> \<not> satisfies_as_evaluated (sample_env [] [] []) doc_sa1
        \<lparr>key = ''version'', fvalue = VInt 1, operator = Some ''notEquals''\<rparr>
   \<and> filter_documents_by_metadata (sample_env [] [] []) [doc_sa1]
        (Some [\<lparr>key = ''version'', fvalue = VInt 1, operator = Some ''notEquals''\<rparr>]) = Inr []
   \<and> metadata doc_sa1
     = Some [(''source'', VStr ''web''), (''id'', VStr ''sa-1''), (''version'', VInt 1)]
   \<and> map_of [(''source'', VStr ''web''), (''id'', VStr ''sa-1''), (''version'', VInt 1)] ''url'' = None
   \<and> passes_filter (sample_env [] [] []) doc_sa1
        \<lparr>key = ''url'', fvalue = VStr ''sa'', operator = Some ''between''\<rparr> = Inr False
   \<and> ''between'' \<notin> set recognized_operators
   \<and> passes_filter (sample_env [] [] []) doc_sa1
        \<lparr>key = ''id'', fvalue = VStr ''sa'', operator = Some ''between''\<rparr> = Inr False"
  using evaluator_accepts_iff_satisfies [of "sample_env [] [] []" doc_sa1
      "Some [\<lparr>key = ''id'', fvalue = VStr ''sa'', operator = Some ''startsWith''\<rparr>,
             \<lparr>key = ''version'', fvalue = VInt 1, operator = Some ''greaterThanOrEqual''\<rparr>]"
      "[doc_sa1, doc_sa1\<lparr>metadata := None\<rparr>]" "[doc_sa1]"
      "\<lparr>key = ''url'', fvalue = VStr ''sa'', operator = Some ''between''\<rparr>" "''between''"]
    evaluator_accepts_iff_satisfies [of "sample_env [] [] []" doc_sa1 None "[]" "[]"
      "\<lparr>key = ''id'', fvalue = VStr ''sa'', operator = Some ''between''\<rparr>" "''between''"]
    evaluator_accepts_iff_satisfies [of "sample_env [] [] []" doc_sa1
      "Some [\<lparr>key = ''version'', fvalue = VInt 1, operator = Some ''notEquals''\<rparr>]"
      "[doc_sa1]" "[]"
      "\<lparr>key = ''version'', fvalue = VStr ''1'', operator = Some ''notEquals''\<rparr>" "''between''"]
  by (simp add: recognized_operators_def filter_documents_by_metadata_def passes_filter_def
      operator_or_equals_def apply_operator_def doc_sa1_def spec_satisfies_def
      spec_operator_holds_def sample_env_def py_ge_def empty_as_absent_def
      satisfies_as_evaluated_def not_equals_across_types_def)

section \<open>Properties of the document batcher\<close>

lemma py_range_bound: "j \<in> set (py_range i n s) \<Longrightarrow> j < n"
proof (induction i n s rule: py_range.induct)
  case (1 i n step)
  then show ?case
    by (subst (asm) py_range.simps) (auto split: if_splits)
qed

lemma py_range_butlast: "j \<in> set (butlast (py_range i n s)) \<Longrightarrow> j + s < n"
proof (induction i n s rule: py_range.induct)
  case (1 i n step)
  show ?case
  proof (cases "step \<noteq> 0 \<and> i < n")
    case False
    then have "py_range i n step = []" by (subst py_range.simps) auto
    with "1.prems" show ?thesis by simp
  next
    case True
    then have unfold: "py_range i n step = i # py_range (i + step) n step"
      by (subst py_range.simps) simp
    show ?thesis
    proof (cases "py_range (i + step) n step = []")
      case True
      with "1.prems" unfold show ?thesis by simp
    next
      case False
      then have "i + step < n"
        by (subst (asm) py_range.simps) (auto split: if_splits)
      moreover from "1.prems" unfold False
      have "j = i \<or> j \<in> set (butlast (py_range (i + step) n step))" by auto
      ultimately show ?thesis using "1.IH" True by auto
    qed
  qed
qed

lemma py_range_concat:
  "0 < s \<Longrightarrow> concat (map (\<lambda>i. take s (drop i xs)) (py_range i (length xs) s)) = drop i xs"
proof (induction i "length xs" s rule: py_range.induct)
  case (1 i step)
  show ?case
  proof (cases "i < length xs")
    case True
    with "1.prems" have unfold: "py_range i (length xs) step = i # py_range (i + step) (length xs) step"
      by (subst py_range.simps) simp
    from "1.hyps" [OF _ True] "1.prems"
    have "concat (map (\<lambda>i. take step (drop i xs)) (py_range (i + step) (length xs) step))
            = drop (i + step) xs" by simp
    then show ?thesis
      unfolding unfold by (simp add: add.commute [of i step] flip: drop_drop)
  next
    case False
    then show ?thesis by (subst py_range.simps) simp
  qed
qed

lemma batches_concat:
  assumes "batches k fd = Inr bs"
  shows "(0 < k \<and> concat bs = fd) \<or> (k < 0 \<and> bs = [])"
proof (cases "0 < k")
  case True
  then have "0 < nat k" by simp
  from py_range_concat [OF this, of fd 0] assms True show ?thesis
    by (auto simp: batches_def)
next
  case False
  with assms show ?thesis by (auto simp: batches_def split: if_splits)
qed

text \<open>
  C5. For a positive batch size the batcher returns, without an exception, consecutive
  groups whose concatenation in order is the input list; no group is empty or longer than
  the batch size, and every group but the last has exactly the batch size.
\<close>

theorem batches_partition:
  assumes "0 < k"
  shows "\<exists>bs. batches k docs = Inr bs
           \<and> concat bs = docs
           \<and> (\<forall>b \<in> set bs. b \<noteq> [] \<and> int (length b) \<le> k)
           \<and> (\<forall>b \<in> set (butlast bs). int (length b) = k)"
proof -
  define s where "s = nat k"
  define bs where "bs = map (\<lambda>i. take s (drop i docs)) (py_range 0 (length docs) s)"
  from assms have s: "0 < s" "int s = k" by (simp_all add: s_def)
  from assms have eq: "batches k docs = Inr bs"
    by (simp add: batches_def bs_def s_def)
  have cat: "concat bs = docs"
    using py_range_concat [OF s(1), of docs 0] by (simp add: bs_def)
  have each: "b \<noteq> [] \<and> int (length b) \<le> k" if "b \<in> set bs" for b
  proof -
    from that obtain j where j: "j \<in> set (py_range 0 (length docs) s)" and b: "b = take s (drop j docs)"
      by (auto simp: bs_def)
    from py_range_bound [OF j] s b show ?thesis by auto
  qed
  have inner: "int (length b) = k" if "b \<in> set (butlast bs)" for b
  proof -
    from that obtain j where j: "j \<in> set (butlast (py_range 0 (length docs) s))"
      and b: "b = take s (drop j docs)"
      by (auto simp: bs_def map_butlast [symmetric])
    from py_range_butlast [OF j] s b show ?thesis by auto
  qed
  from eq cat each inner show ?thesis by blast
qed

text \<open>C5 at three documents and the batch size 2.\<close>

theorem batches_partition_witness:
  "(0::int) < 2
   \<and> batches 2 [doc_sa1, doc_sa2, doc_recipe] = Inr [[doc_sa1, doc_sa2], [doc_recipe]]"
  using batches_partition [of 2 "[doc_sa1, doc_sa2, doc_recipe]"]
  by (simp add: batches_def py_range.simps)

section \<open>Properties of the query dispatcher\<close>

lemma make_query_result_Inr:
  assumes "make_query_result cv rv iv d = Inr qr"
  shows "cv = PStr (qr_content qr)" "rv = PStr (qr_reasoning qr)"
    "validate_bool iv = Inr (qr_is_irrelevant qr)" "qr_document qr = d"
proof -
  from assms obtain c' r' i' where
    c: "validate_str cv = Inr c'" and r: "validate_str rv = Inr r'"
    and i: "validate_bool iv = Inr i'"
    and qr: "qr = \<lparr>qr_content = c', qr_reasoning = r', qr_is_irrelevant = i', qr_document = d\<rparr>"
    by (auto simp: make_query_result_def split: sum.splits)
  from c have "cv = PStr c'" by (cases cv) simp_all
  moreover from r have "rv = PStr r'" by (cases rv) simp_all
  ultimately show "cv = PStr (qr_content qr)" "rv = PStr (qr_reasoning qr)"
    "validate_bool iv = Inr (qr_is_irrelevant qr)" "qr_document qr = d"
    using i qr by simp_all
qed

lemma validate_bool_falsy:
  assumes "\<not> truthy v" "validate_bool v = Inr b"
  shows "\<not> b"
  using assms by (cases v) (auto simp: lower_def split: if_splits)

lemma py_get_falsy_again:
  assumes "py_get src k (PBool True) = Inr v" "\<not> truthy v"
  shows "py_get src k dflt = Inr v"
  using assms by (cases src) (auto split: option.splits)

lemma process_response_cases:
  assumes "process_response E c p d r results mem = (Inr results', mem')"
  shows "(results' = results \<and> mem' = mem)
       \<or> (\<exists>qr. results' = results @ [qr] \<and> qr_document qr = d \<and> mem' = retain mem p qr
              \<and> (prefix ''ollama/'' (model c) \<or> \<not> qr_is_irrelevant qr))"
proof (cases r)
  case Nil
  with assms show ?thesis by (simp add: process_response_def)
next
  case (Cons message_content others)
  show ?thesis
  proof (cases "prefix ''ollama/'' (model c)")
    case True
    with assms Cons show ?thesis
      by (auto simp: process_response_def retain_def split: option.splits prod.splits)
  next
    case False
    let ?parsed = "case message_content of None \<Rightarrow> Inr PNone | Some text \<Rightarrow> json_loads E text"
    show ?thesis
    proof (cases ?parsed)
      case (Inl e)
      with assms Cons False show ?thesis
        by (simp add: process_response_def split: if_splits)
    next
      case (Inr data)
      with assms Cons False obtain src irrelevant where
        src: "py_getitem data ''source'' = Inr src"
        and irr: "py_get src ''is_irrelevant'' (PBool True) = Inr irrelevant"
        by (auto simp: process_response_def split: sum.splits)
      show ?thesis
      proof (cases "truthy irrelevant")
        case True
        with assms Cons False Inr src irr show ?thesis
          by (simp add: process_response_def)
      next
        case falsy: False
        from py_get_falsy_again [OF irr falsy]
        have irr': "py_get src ''is_irrelevant'' (PBool False) = Inr irrelevant" .
        from assms Cons False Inr src irr irr' falsy obtain cont reasoning qr where
          "make_query_result cont reasoning irrelevant d = Inr qr"
          and res: "results' = results @ [qr]"
          and mem: "mem' = add_message (add_message mem (user_message p)) (assistant_message cont)"
          by (auto simp: process_response_def Let_def split: sum.splits)
        from make_query_result_Inr [OF this(1)] validate_bool_falsy [OF falsy]
        have "cont = PStr (qr_content qr)" "qr_document qr = d" "\<not> qr_is_irrelevant qr"
          by auto
        with res mem show ?thesis by (auto simp: retain_def)
      qed
    qed
  qed
qed

lemma process_response_uniform:
  "fst (process_response E c p d r results mem)
     = (case fst (process_response E c q d r [] m0) of
          Inl e \<Rightarrow> Inl e
        | Inr new \<Rightarrow> Inr (results @ new))"
  unfolding process_response_def
  by (simp add: Let_def split: list.splits option.splits sum.splits prod.splits)

lemma process_response_Inr:
  assumes "process_response E c p d r results mem = (Inr results', mem')"
  shows "results' = results @ retained E c d r"
    and "history mem' = history mem @ concat (map (exchange p) (retained E c d r))"
    and "retained E c d r = [] \<or> (\<exists>qr. retained E c d r = [qr] \<and> qr_document qr = d
            \<and> (prefix ''ollama/'' (model c) \<or> \<not> qr_is_irrelevant qr))"
proof -
  from assms process_response_uniform [of E c p d r results mem "[]" "\<lparr>history = []\<rparr>"]
  show res: "results' = results @ retained E c d r"
    by (auto simp: retained_def split: sum.splits)
  from process_response_cases [OF assms] res
  show "history mem' = history mem @ concat (map (exchange p) (retained E c d r))"
    by (auto simp: retain_def exchange_def add_message_def)
  from process_response_cases [OF assms] res
  show "retained E c d r = [] \<or> (\<exists>qr. retained E c d r = [qr] \<and> qr_document qr = d
            \<and> (prefix ''ollama/'' (model c) \<or> \<not> qr_is_irrelevant qr))"
    by auto
qed

lemma process_responses_Inr:
  assumes "process_responses E c p pairs results mem = (Inr results', mem')"
  shows "results' = results @ concat (map (\<lambda>(d, r). retained E c d r) pairs)
       \<and> history mem' = history mem
            @ concat (map (exchange p) (concat (map (\<lambda>(d, r). retained E c d r) pairs)))"
  using assms
proof (induction pairs arbitrary: results mem)
  case Nil
  then show ?case by simp
next
  case (Cons pr pairs)
  obtain d r where pr: "pr = (d, r)" by (cases pr)
  from Cons.prems pr obtain results1 mem1 where
    one: "process_response E c p d r results mem = (Inr results1, mem1)"
    and rest: "process_responses E c p pairs results1 mem1 = (Inr results', mem')"
    by (auto split: prod.splits sum.splits)
  from process_response_Inr(1,2) [OF one] Cons.IH [OF rest] pr
  show ?case by simp
qed


lemma answers_append:
  "answers E b (qs @ qs') =
     (case answers E b qs of
        (rs, b') \<Rightarrow> (case answers E b' qs' of (rs', b'') \<Rightarrow> (rs @ rs', b'')))"
  by (induction qs arbitrary: b) (auto split: prod.splits)

lemma answers_length: "length (fst (answers E b qs)) = length qs"
proof (induction qs arbitrary: b)
  case Nil
  show ?case by simp
next
  case (Cons q qs)
  obtain r b1 where call: "acompletion E b q = (r, b1)" by (cases "acompletion E b q")
  obtain rs b2 where rest: "answers E b1 qs = (rs, b2)" by (cases "answers E b1 qs")
  with call Cons.IH [of b1] show ?case by simp
qed

lemma gather_Cons:
  assumes "acompletion E b \<lparr>req_model = model c, req_messages = build_messages E c mem p d,
              req_stream = False\<rparr> = (r, b1)"
    and "gather E c p mem docs b1
           (issued @ [\<lparr>req_model = model c, req_messages = build_messages E c mem p d,
              req_stream = False\<rparr>]) = (rs, b2, issued2)"
  shows "gather E c p mem (d # docs) b issued =
      (case r of
         Inl e \<Rightarrow> (Inl e, b2, issued2)
       | Inr x \<Rightarrow> (case rs of Inl e \<Rightarrow> (Inl e, b2, issued2)
                              | Inr xs \<Rightarrow> (Inr (x # xs), b2, issued2)))"
  using assms by (simp add: Let_def)

lemma gather_requests:
  "gather E c p mem docs b issued = (out, b', issued') \<Longrightarrow>
     issued' = issued @ batch_requests E c p mem docs
     \<and> b' = snd (answers E b (batch_requests E c p mem docs))
     \<and> (\<forall>resps. out = Inr resps \<longrightarrow>
           fst (answers E b (batch_requests E c p mem docs)) = map Inr resps)"
proof (induction docs arbitrary: b issued out b' issued')
  case Nil
  then show ?case by (auto simp: batch_requests_def)
next
  case (Cons d docs)
  let ?req = "\<lparr>req_model = model c, req_messages = build_messages E c mem p d, req_stream = False\<rparr>"
  obtain r b1 where call: "acompletion E b ?req = (r, b1)" by (cases "acompletion E b ?req")
  obtain rs b2 issued2 where rec: "gather E c p mem docs b1 (issued @ [?req]) = (rs, b2, issued2)"
    by (cases "gather E c p mem docs b1 (issued @ [?req])")
  have unfold: "batch_requests E c p mem (d # docs) = ?req # batch_requests E c p mem docs"
    by (simp add: batch_requests_def)
  note step = gather_Cons [OF call rec]
  from Cons.prems [unfolded step] have same: "issued' = issued2" "b' = b2"
    by (auto split: sum.splits)
  from Cons.IH [OF rec] have
    ih1: "issued2 = (issued @ [?req]) @ batch_requests E c p mem docs"
    and ih2: "b2 = snd (answers E b1 (batch_requests E c p mem docs))"
    and ih3: "\<And>xs. rs = Inr xs \<Longrightarrow> fst (answers E b1 (batch_requests E c p mem docs)) = map Inr xs"
    by auto
  have "fst (answers E b (batch_requests E c p mem (d # docs))) = map Inr resps"
    if "out = Inr resps" for resps
  proof -
    from Cons.prems [unfolded step] that obtain x xs where
      "r = Inr x" "rs = Inr xs" "resps = x # xs"
      by (auto split: sum.splits)
    with call ih3 [of xs] show ?thesis by (auto simp: unfold split: prod.splits)
  qed
  moreover from same ih1 have "issued' = issued @ batch_requests E c p mem (d # docs)"
    by (simp add: unfold)
  moreover from same ih2 call have "b' = snd (answers E b (batch_requests E c p mem (d # docs)))"
    by (auto simp: unfold split: prod.splits)
  ultimately show ?case by blast
qed

lemma batch_requests_system:
  "map (\<lambda>q. hd (req_messages q)) (batch_requests E c p mem docs) = map (system_message E c) docs"
  by (simp add: batch_requests_def build_messages_def comp_def)

lemma run_batches_Inr:
  "run_batches E c p bs results st = (Inr results', st') \<Longrightarrow>
     \<exists>rs reqs. length rs = length (concat bs)
       \<and> results' = results @ concat (map (\<lambda>(d, r). retained E c d r) (zip (concat bs) rs))
       \<and> history (memory st') = history (memory st)
            @ concat (map (exchange p)
                (concat (map (\<lambda>(d, r). retained E c d r) (zip (concat bs) rs))))
       \<and> sent st' = sent st @ reqs
       \<and> answers E (remote st) reqs = (map Inr rs, remote st')
       \<and> map (\<lambda>q. hd (req_messages q)) reqs = map (system_message E c) (concat bs)"
proof (induction bs arbitrary: results st)
  case Nil
  then have "results' = results" "st' = st" by simp_all
  then show ?case by simp
next
  case (Cons batch rest)
  let ?breqs = "batch_requests E c p (memory st) batch"
  obtain out b issued where
    g: "gather E c p (memory st) batch (remote st) (sent st) = (out, b, issued)"
    by (cases "gather E c p (memory st) batch (remote st) (sent st)")
  with Cons.prems obtain resps results1 mem1 where
    out: "out = Inr resps"
    and pr: "process_responses E c p (zip batch resps) results (memory st) = (Inr results1, mem1)"
    and rb: "run_batches E c p rest results1 \<lparr>memory = mem1, remote = b, sent = issued\<rparr>
               = (Inr results', st')"
    by (auto split: sum.splits prod.splits)
  from gather_requests [OF g] out have
    issued: "issued = sent st @ ?breqs"
    and ans: "answers E (remote st) ?breqs = (map Inr resps, b)"
    by (auto simp: prod_eq_iff)
  from ans answers_length [of E "remote st" ?breqs] have len: "length resps = length batch"
    by (simp add: batch_requests_def)
  from process_responses_Inr [OF pr] have
    r1: "results1 = results @ concat (map (\<lambda>(d, r). retained E c d r) (zip batch resps))"
    and h1: "history mem1 = history (memory st)
        @ concat (map (exchange p) (concat (map (\<lambda>(d, r). retained E c d r) (zip batch resps))))"
    by simp_all
  from Cons.IH [OF rb] obtain rs reqs where
    l: "length rs = length (concat rest)"
    and r: "results' = results1 @ concat (map (\<lambda>(d, r). retained E c d r) (zip (concat rest) rs))"
    and h: "history (memory st') = history mem1
        @ concat (map (exchange p) (concat (map (\<lambda>(d, r). retained E c d r) (zip (concat rest) rs))))"
    and s: "sent st' = issued @ reqs"
    and a: "answers E b reqs = (map Inr rs, remote st')"
    and m: "map (\<lambda>q. hd (req_messages q)) reqs = map (system_message E c) (concat rest)"
    by auto
  have z: "zip (concat (batch # rest)) (resps @ rs) = zip batch resps @ zip (concat rest) rs"
    using len by simp
  have "length (resps @ rs) = length (concat (batch # rest))"
    using len l by simp
  moreover have "results' = results
      @ concat (map (\<lambda>(d, r). retained E c d r) (zip (concat (batch # rest)) (resps @ rs)))"
    unfolding z using r r1 by simp
  moreover have "history (memory st') = history (memory st)
      @ concat (map (exchange p)
          (concat (map (\<lambda>(d, r). retained E c d r) (zip (concat (batch # rest)) (resps @ rs)))))"
    unfolding z using h h1 by simp
  moreover have "sent st' = sent st @ (?breqs @ reqs)"
    using s issued by simp
  moreover have "answers E (remote st) (?breqs @ reqs) = (map Inr (resps @ rs), remote st')"
    using ans a by (simp add: answers_append)
  moreover have "map (\<lambda>q. hd (req_messages q)) (?breqs @ reqs)
      = map (system_message E c) (concat (batch # rest))"
    using m by (simp add: batch_requests_system)
  ultimately show ?case by blast
qed

lemma retained_shape:
  "retained E c d r = [] \<or> (\<exists>qr. retained E c d r = [qr] \<and> qr_document qr = d
      \<and> (prefix ''ollama/'' (model c) \<or> \<not> qr_is_irrelevant qr))"
proof (cases "process_response E c [] d r [] \<lparr>history = []\<rparr>")
  case (Pair out mem')
  show ?thesis
  proof (cases out)
    case (Inl e)
    with Pair show ?thesis by (simp add: retained_def)
  next
    case (Inr new)
    with Pair process_response_cases [of E c "[]" d r "[]" "\<lparr>history = []\<rparr>" new mem']
    show ?thesis by (auto simp: retained_def)
  qed
qed

lemma retained_subseq:
  "subseq (map qr_document (concat (map (\<lambda>(d, r). retained E c d r) (zip ds rs)))) ds"
proof (induction ds arbitrary: rs)
  case Nil
  show ?case by simp
next
  case (Cons d ds)
  show ?case
  proof (cases rs)
    case Nil
    then show ?thesis by simp
  next
    case (Cons r rs')
    with Cons.IH [of rs'] retained_shape [of E c d r] show ?thesis by auto
  qed
qed

lemma retained_relevant:
  assumes "\<not> prefix ''ollama/'' (model c)"
    and "qr \<in> set (concat (map (\<lambda>(d, r). retained E c d r) (zip ds rs)))"
  shows "\<not> qr_is_irrelevant qr"
proof -
  from assms(2) obtain d r where "qr \<in> set (retained E c d r)" by auto
  with retained_shape [of E c d r] assms(1) show ?thesis by auto
qed

lemma batch_query_Inr:
  assumes "batch_query E c p docs opts st = (Inr results, st')"
  shows "\<exists>fd rs reqs. filter_documents_by_metadata E docs (filters_of_options opts) = Inr fd
     \<and> length rs = (if 0 < batch_size c then length fd else 0)
     \<and> results = concat (map (\<lambda>(d, r). retained E c d r) (zip fd rs))
     \<and> history (memory st') = history (memory st) @ concat (map (exchange p) results)
     \<and> sent st' = sent st @ reqs
     \<and> answers E (remote st) reqs = (map Inr rs, remote st')
     \<and> map (\<lambda>q. hd (req_messages q)) reqs = map (system_message E c) (take (length rs) fd)"
proof -
  from assms obtain fd bs where
    fd: "filter_documents_by_metadata E docs (filters_of_options opts) = Inr fd"
    and bs: "batches (batch_size c) fd = Inr bs"
    and rb: "run_batches E c p bs [] st = (Inr results, st')"
    by (auto simp: batch_query_def split: sum.splits prod.splits)
  from run_batches_Inr [OF rb] obtain rs reqs where
    l: "length rs = length (concat bs)"
    and r: "results = concat (map (\<lambda>(d, r). retained E c d r) (zip (concat bs) rs))"
    and h: "history (memory st') = history (memory st) @ concat (map (exchange p) results)"
    and s: "sent st' = sent st @ reqs"
    and a: "answers E (remote st) reqs = (map Inr rs, remote st')"
    and m: "map (\<lambda>q. hd (req_messages q)) reqs = map (system_message E c) (concat bs)"
    by (elim exE conjE) simp
  from batches_concat [OF bs] show ?thesis
  proof
    assume pos: "0 < batch_size c \<and> concat bs = fd"
    show ?thesis
      using pos fd l r h s a m
      by (intro exI [of _ fd] exI [of _ rs] exI [of _ reqs]) simp
  next
    assume neg: "batch_size c < 0 \<and> bs = []"
    with l have "rs = []" by simp
    with neg fd r h s a m show ?thesis
      by (intro exI [of _ fd] exI [of _ rs] exI [of _ reqs]) simp
  qed
qed

lemma py_get_PDict: "py_get (PDict src) k dflt = Inr (member_or src k dflt)"
  by (simp add: member_or_def split: option.splits)

lemma process_response_json:
  assumes "\<not> prefix ''ollama/'' (model c)"
    and "json_loads E body = Inr data"
    and "py_getitem data ''source'' = Inr (PDict src)"
  shows "process_response E c p d (Some body # others) results mem =
     (if truthy (member_or src ''is_irrelevant'' (PBool True)) then (Inr results, mem)
      else (case make_query_result (member_or src ''content'' (PStr []))
                   (member_or src ''reasoning'' (PStr []))
                   (member_or src ''is_irrelevant'' (PBool False)) d of
              Inl e \<Rightarrow> (Inl e, add_message (add_message mem (user_message p))
                               (assistant_message (member_or src ''content'' (PStr []))))
            | Inr qr \<Rightarrow> (Inr (results @ [qr]),
                         add_message (add_message mem (user_message p))
                               (assistant_message (member_or src ''content'' (PStr []))))))"
  using assms by (simp add: process_response_def py_get_PDict Let_def del: py_get.simps)

text \<open>
  For a model that is not an ollama model, a query that returns has no irrelevant result,
  at most one result per filtered document, and the memory gained the messages of the
  results and nothing else.
\<close>

lemma json_path_drops_irrelevant:
  assumes "\<not> prefix ''ollama/'' (model c)"
    and "batch_query E c p docs opts st = (Inr results, st')"
    and "filter_documents_by_metadata E docs (filters_of_options opts) = Inr fd"
  shows "(\<forall>qr \<in> set results. \<not> qr_is_irrelevant qr)
     \<and> length results \<le> length fd
     \<and> get_history (memory st') = get_history (memory st) @ concat (map (exchange p) results)"
proof -
  from batch_query_Inr [OF assms(2)] assms(3) obtain rs where
    r: "results = concat (map (\<lambda>(d, r). retained E c d r) (zip fd rs))"
    and h: "history (memory st') = history (memory st) @ concat (map (exchange p) results)"
    by auto
  from r retained_relevant [OF assms(1), of _ E fd rs]
  have "\<forall>qr \<in> set results. \<not> qr_is_irrelevant qr" by blast
  moreover from r retained_subseq [of E c fd rs]
  have "subseq (map qr_document results) fd" by simp
  then have "length results \<le> length fd" by (auto dest: list_emb_length)
  ultimately show ?thesis using h by (simp add: get_history_def)
qed

text \<open>
  C1 (the code keeps what the claim says is dropped). For an ollama model the response is
  appended to the results whatever its \<^verbatim>\<open>is_irrelevant\<close>: a response that says
  \<^verbatim>\<open>**isIrrelevant:** true\<close> gives a result with \<^verbatim>\<open>is_irrelevant\<close> true, and its two
  messages are added to the memory.
\<close>

theorem ollama_keeps_irrelevant:
  "fst (batch_query (sample_env [] [[Some cooking_text]] []) ollama_client
          ''What is Superagent?'' [doc_recipe] None fresh)
     = Inr [\<lparr>qr_content = [], qr_reasoning = ''The document is about cooking.'',
             qr_is_irrelevant = True, qr_document = doc_recipe\<rparr>]
   \<and> get_history (memory (snd (batch_query (sample_env [] [[Some cooking_text]] []) ollama_client
          ''What is Superagent?'' [doc_recipe] None fresh)))
     = [user_message ''What is Superagent?'', assistant_message (PStr [])]"
  by code_simp

text \<open>
  C9. When a non-streaming query returns, the documents of its results are a subsequence
  of the filtered documents in their order. More precisely there is one response per
  filtered document (none when the batch size is negative), the results are what the
  responses contribute, each paired with the filtered document at its position and
  carrying that document, the responses are the answers of the backend to the requests of
  the query in the order they were issued, and the request at a position starts with the
  system message that holds the name, the metadata and the content of the filtered
  document at that position.
\<close>

theorem results_follow_document_order:
  assumes "batch_query E c p docs opts st = (Inr results, st')"
    and "filter_documents_by_metadata E docs (filters_of_options opts) = Inr fd"
  shows "subseq (map qr_document results) fd
    \<and> map (\<lambda>q. hd (req_messages q)) (drop (length (sent st)) (sent st'))
        = map (\<lambda>d. \<lparr>msg_role = ''system'',
                      msg_content = PStr (system c
                        @ ''\<newline>\<newline># Available source\<newline>\<newline>Name: '' @ name d
                        @ ''\<newline>Metadata: '' @ str_metadata E (metadata d)
                        @ ''\<newline>Content: '' @ content d)\<rparr>)
            (if 0 < batch_size c then fd else [])
    \<and> (\<exists>rs. length rs = (if 0 < batch_size c then length fd else 0)
          \<and> results = concat (map (\<lambda>(d, r). retained E c d r) (zip fd rs))
          \<and> (\<forall>(d, r) \<in> set (zip fd rs). \<forall>qr \<in> set (retained E c d r). qr_document qr = d)
          \<and> fst (answers E (remote st) (drop (length (sent st)) (sent st'))) = map Inr rs)"
proof -
  from batch_query_Inr [OF assms(1)] assms(2) obtain rs reqs where
    l: "length rs = (if 0 < batch_size c then length fd else 0)"
    and r: "results = concat (map (\<lambda>(d, r). retained E c d r) (zip fd rs))"
    and s: "sent st' = sent st @ reqs"
    and a: "answers E (remote st) reqs = (map Inr rs, remote st')"
    and m: "map (\<lambda>q. hd (req_messages q)) reqs = map (system_message E c) (take (length rs) fd)"
    by auto
  from s have d: "drop (length (sent st)) (sent st') = reqs" by simp
  have sys: "system_message E c
      = (\<lambda>d. \<lparr>msg_role = ''system'',
                msg_content = PStr (system c
                  @ ''\<newline>\<newline># Available source\<newline>\<newline>Name: '' @ name d
                  @ ''\<newline>Metadata: '' @ str_metadata E (metadata d)
                  @ ''\<newline>Content: '' @ content d)\<rparr>)"
    by (rule ext) (simp add: system_message_def format_doc_def)
  from l have t: "take (length rs) fd = (if 0 < batch_size c then fd else [])" by simp
  have own: "\<forall>(d, r) \<in> set (zip fd rs). \<forall>qr \<in> set (retained E c d r). qr_document qr = d"
  proof (clarify)
    fix d r qr
    assume "qr \<in> set (retained E c d r)"
    with retained_shape [of E c d r] show "qr_document qr = d" by auto
  qed
  from r retained_subseq [of E c fd rs] have "subseq (map qr_document results) fd" by simp
  moreover from m d have "map (\<lambda>q. hd (req_messages q)) (drop (length (sent st)) (sent st'))
        = map (\<lambda>d. \<lparr>msg_role = ''system'',
                      msg_content = PStr (system c
                        @ ''\<newline>\<newline># Available source\<newline>\<newline>Name: '' @ name d
                        @ ''\<newline>Metadata: '' @ str_metadata E (metadata d)
                        @ ''\<newline>Content: '' @ content d)\<rparr>)
            (if 0 < batch_size c then fd else [])"
    unfolding sys [symmetric] t [symmetric] by simp
  moreover from l r a d own have "\<exists>rs. length rs = (if 0 < batch_size c then length fd else 0)
          \<and> results = concat (map (\<lambda>(d, r). retained E c d r) (zip fd rs))
          \<and> (\<forall>(d, r) \<in> set (zip fd rs). \<forall>qr \<in> set (retained E c d r). qr_document qr = d)
          \<and> fst (answers E (remote st) (drop (length (sent st)) (sent st'))) = map Inr rs"
    by (intro exI [of _ rs]) simp
  ultimately show ?thesis by blast
qed

text \<open>
  C9 at three documents in two batches, the second document judged irrelevant: the
  results are those of the first and the third document, in this order, and the three
  requests start with the system messages of the three documents, in their order.
\<close>

theorem results_follow_document_order_witness:
  "fst (batch_query (sample_env sample_table
            [[Some relevant_body], [Some irrelevant_body], [Some relevant_body]] [])
          (sample_client\<lparr>batch_size := 2\<rparr>) ''What is Superagent?''
          [doc_sa1, doc_recipe, doc_guide] None fresh)
     = Inr [\<lparr>qr_content = ''Superagent is a workspace for AI-agents.'',
             qr_reasoning = ''The document describes Superagent.'',
             qr_is_irrelevant = False, qr_document = doc_sa1\<rparr>,
            \<lparr>qr_content = ''Superagent is a workspace for AI-agents.'',
             qr_reasoning = ''The document describes Superagent.'',
             qr_is_irrelevant = False, qr_document = doc_guide\<rparr>]
   \<and> filter_documents_by_metadata (sample_env sample_table
            [[Some relevant_body], [Some irrelevant_body], [Some relevant_body]] [])
          [doc_sa1, doc_recipe, doc_guide] (filters_of_options None)
     = Inr [doc_sa1, doc_recipe, doc_guide]
   \<and> subseq [doc_sa1, doc_guide] [doc_sa1, doc_recipe, doc_guide]
   \<and> map (\<lambda>q. hd (req_messages q))
        (sent (snd (batch_query (sample_env sample_table
            [[Some relevant_body], [Some irrelevant_body], [Some relevant_body]] [])
          (sample_client\<lparr>batch_size := 2\<rparr>) ''What is Superagent?''
          [doc_sa1, doc_recipe, doc_guide] None fresh)))
     = [\<lparr>msg_role = ''system'', msg_content = PStr ''You are a helpful assistant.\<newline>\<newline># Available source\<newline>\<newline>Name: Superagent\<newline>Metadata: {...}\<newline>Content: Superagent is a workspace for AI-agents.''\<rparr>,
        \<lparr>msg_role = ''system'', msg_content = PStr ''You are a helpful assistant.\<newline>\<newline># Available source\<newline>\<newline>Name: Irrelevant Doc\<newline>Metadata: {...}\<newline>Content: Unrelated content about cooking recipes.''\<rparr>,
        \<lparr>msg_role = ''system'', msg_content = PStr ''You are a helpful assistant.\<newline>\<newline># Available source\<newline>\<newline>Name: Guide\<newline>Metadata: None\<newline>Content: How to set up Superagent.''\<rparr>]"
proof -
  let ?E = "sample_env sample_table
            [[Some relevant_body], [Some irrelevant_body], [Some relevant_body]] []"
  let ?run = "batch_query ?E (sample_client\<lparr>batch_size := 2\<rparr>) ''What is Superagent?''
          [doc_sa1, doc_recipe, doc_guide] None fresh"
  let ?results = "[\<lparr>qr_content = ''Superagent is a workspace for AI-agents.'',
             qr_reasoning = ''The document describes Superagent.'',
             qr_is_irrelevant = False, qr_document = doc_sa1\<rparr>,
            \<lparr>qr_content = ''Superagent is a workspace for AI-agents.'',
             qr_reasoning = ''The document describes Superagent.'',
             qr_is_irrelevant = False, qr_document = doc_guide\<rparr>]"
  have run: "fst ?run = Inr ?results"
    by code_simp
  then have h1: "?run = (Inr ?results, snd ?run)"
    by (simp add: prod_eq_iff)
  have h2: "filter_documents_by_metadata ?E [doc_sa1, doc_recipe, doc_guide] (filters_of_options None)
     = Inr [doc_sa1, doc_recipe, doc_guide]"
    by (simp add: filter_documents_by_metadata_def)
  have sent0: "sent fresh = []" "remote fresh = 0"
    by (simp_all add: fresh_def)
  note t = results_follow_document_order [OF h1 h2]
  from t have sub: "subseq (map qr_document ?results) [doc_sa1, doc_recipe, doc_guide]"
    by (rule conjunct1)
  from t [THEN conjunct2, THEN conjunct1] sent0
  have "map (\<lambda>q. hd (req_messages q)) (sent (snd ?run))
     = [\<lparr>msg_role = ''system'', msg_content = PStr ''You are a helpful assistant.\<newline>\<newline># Available source\<newline>\<newline>Name: Superagent\<newline>Metadata: {...}\<newline>Content: Superagent is a workspace for AI-agents.''\<rparr>,
        \<lparr>msg_role = ''system'', msg_content = PStr ''You are a helpful assistant.\<newline>\<newline># Available source\<newline>\<newline>Name: Irrelevant Doc\<newline>Metadata: {...}\<newline>Content: Unrelated content about cooking recipes.''\<rparr>,
        \<lparr>msg_role = ''system'', msg_content = PStr ''You are a helpful assistant.\<newline>\<newline># Available source\<newline>\<newline>Name: Guide\<newline>Metadata: None\<newline>Content: How to set up Superagent.''\<rparr>]"
    by (simp add: sample_client_def sample_env_def doc_sa1_def doc_recipe_def doc_guide_def)
  moreover from sub have "subseq [doc_sa1, doc_guide] [doc_sa1, doc_recipe, doc_guide]"
    by simp
  ultimately show ?thesis using run h2 by blast
qed

text \<open>
  C8. When a non-streaming query returns a non-empty list of results, the history gained
  two messages for every result, in the order of the results: the user prompt and then an
  assistant message with the content of the result. So its final two entries are the
  user prompt and then the content of the last result. After \<^verbatim>\<open>clear()\<close> the history is
  empty.
\<close>

theorem memory_round_trip:
  "(batch_query E c p docs opts st = (Inr results, st') \<and> results \<noteq> [] \<longrightarrow>
      get_history (memory st')
        = get_history (memory st)
          @ concat (map (\<lambda>qr. [\<lparr>msg_role = ''user'', msg_content = PStr p\<rparr>,
                               \<lparr>msg_role = ''assistant'', msg_content = PStr (qr_content qr)\<rparr>])
                     results)
      \<and> (\<exists>h. get_history (memory st')
              = h @ [\<lparr>msg_role = ''user'', msg_content = PStr p\<rparr>,
                     \<lparr>msg_role = ''assistant'',
                      msg_content = PStr (qr_content (last results))\<rparr>]))
   \<and> get_history (clear m) = [] \<and> length (get_history (clear m)) = 0"
proof -
  let ?pair = "\<lambda>qr. [\<lparr>msg_role = ''user'', msg_content = PStr p\<rparr>,
                     \<lparr>msg_role = ''assistant'', msg_content = PStr (qr_content qr)\<rparr>]"
  have pair: "exchange p = ?pair"
    by (rule ext) (simp add: exchange_def user_message_def assistant_message_def)
  have "get_history (memory st') = get_history (memory st) @ concat (map ?pair results)
      \<and> (\<exists>h. get_history (memory st') = h @ ?pair (last results))"
    if q: "batch_query E c p docs opts st = (Inr results, st')" and ne: "results \<noteq> []"
  proof -
    from batch_query_Inr [OF q] have
      h: "get_history (memory st') = get_history (memory st) @ concat (map ?pair results)"
      by (auto simp: get_history_def pair)
    have "concat (map ?pair (butlast results @ [last results]))
        = concat (map ?pair (butlast results)) @ ?pair (last results)"
      by (simp del: append_butlast_last_id)
    with ne have "concat (map ?pair results)
        = concat (map ?pair (butlast results)) @ ?pair (last results)"
      by simp
    with h have "get_history (memory st')
        = (get_history (memory st) @ concat (map ?pair (butlast results))) @ ?pair (last results)"
      by simp
    with h show ?thesis by blast
  qed
  moreover have "get_history (clear m) = []" "length (get_history (clear m)) = 0"
    by (simp_all add: get_history_def clear_def)
  ultimately show ?thesis by blast
qed

text \<open>
  C8 at the scenario of the tests: one document, one relevant response, an empty memory
  before the query.
\<close>

theorem memory_round_trip_witness:
  "fst (batch_query (sample_env sample_table [[Some relevant_body]] []) sample_client
          ''What is Superagent?'' [doc_sa1] None fresh)
     = Inr [\<lparr>qr_content = ''Superagent is a workspace for AI-agents.'',
             qr_reasoning = ''The document describes Superagent.'',
             qr_is_irrelevant = False, qr_document = doc_sa1\<rparr>]
   \<and> get_history (memory (snd (batch_query (sample_env sample_table [[Some relevant_body]] [])
          sample_client ''What is Superagent?'' [doc_sa1] None fresh)))
     = [\<lparr>msg_role = ''user'', msg_content = PStr ''What is Superagent?''\<rparr>,
        \<lparr>msg_role = ''assistant'',
         msg_content = PStr ''Superagent is a workspace for AI-agents.''\<rparr>]
   \<and> get_history (clear (memory (snd (batch_query (sample_env sample_table [[Some relevant_body]] [])
          sample_client ''What is Superagent?'' [doc_sa1] None fresh)))) = []"
proof -
  let ?E = "sample_env sample_table [[Some relevant_body]] []"
  let ?run = "batch_query ?E sample_client ''What is Superagent?'' [doc_sa1] None fresh"
  let ?results = "[\<lparr>qr_content = ''Superagent is a workspace for AI-agents.'',
             qr_reasoning = ''The document describes Superagent.'',
             qr_is_irrelevant = False, qr_document = doc_sa1\<rparr>]"
  have run: "fst ?run = Inr ?results"
    by code_simp
  then have h1: "?run = (Inr ?results, snd ?run)"
    by (simp add: prod_eq_iff)
  from memory_round_trip [of ?E sample_client "''What is Superagent?''" "[doc_sa1]" None fresh
      ?results "snd ?run" "memory (snd ?run)"] h1
  have "get_history (memory (snd ?run))
          = get_history (memory fresh)
              @ [\<lparr>msg_role = ''user'', msg_content = PStr ''What is Superagent?''\<rparr>,
                 \<lparr>msg_role = ''assistant'',
                  msg_content = PStr ''Superagent is a workspace for AI-agents.''\<rparr>]"
    and "get_history (clear (memory (snd ?run))) = []"
    by simp_all
  with run show ?thesis
    by (simp add: fresh_def get_history_def)
qed

text \<open>
  C3 (the code raises where the claim says it defaults). A body without \<^verbatim>\<open>source\<close>:
  the empty object is well-formed JSON, \<^verbatim>\<open>data["source"]\<close> raises \<^verbatim>\<open>KeyError\<close>, and
  the query fails with it; nothing is returned for the document.
\<close>

theorem missing_source_raises:
  "json_loads (sample_env sample_table [[Some ''{}'']] []) ''{}'' = Inr (PDict [])
   \<and> process_response (sample_env sample_table [[Some ''{}'']] []) sample_client
        ''What is Superagent?'' doc_sa1 [Some ''{}''] [] \<lparr>history = []\<rparr>
       = (Inl KeyError, \<lparr>history = []\<rparr>)
   \<and> fst (batch_query (sample_env sample_table [[Some ''{}'']] []) sample_client
          ''What is Superagent?'' [doc_sa1] None fresh)
     = Inl (QueryFailed KeyError)"
  by code_simp

text \<open>
  The members of \<^verbatim>\<open>source\<close> do have defaults: for a model that is not an ollama model
  and a body that parses to an object with a \<^verbatim>\<open>source\<close> object, a missing
  \<^verbatim>\<open>is_irrelevant\<close> counts as true (the response is dropped and nothing is raised), and
  with \<^verbatim>\<open>is_irrelevant\<close> false a \<^verbatim>\<open>content\<close> or \<^verbatim>\<open>reasoning\<close> that is missing is the
  empty string in the result (one that is present has to be a string).
\<close>

lemma source_members_default:
  assumes "\<not> prefix ''ollama/'' (model c)"
    and "json_loads E body = Inr data"
    and "py_getitem data ''source'' = Inr (PDict src)"
  shows "(map_of src ''is_irrelevant'' = None \<longrightarrow>
            process_response E c p d (Some body # others) results mem = (Inr results, mem))
     \<and> (map_of src ''is_irrelevant'' = Some (PBool False)
          \<and> (case map_of src ''content'' of None \<Rightarrow> PStr [] | Some v \<Rightarrow> v) = PStr ct
          \<and> (case map_of src ''reasoning'' of None \<Rightarrow> PStr [] | Some v \<Rightarrow> v) = PStr rt \<longrightarrow>
            process_response E c p d (Some body # others) results mem =
              (Inr (results @ [\<lparr>qr_content = ct, qr_reasoning = rt, qr_is_irrelevant = False,
                                qr_document = d\<rparr>]),
               add_message (add_message mem (user_message p)) (assistant_message (PStr ct))))"
proof -
  note run = process_response_json [OF assms, of p d others results mem]
  have "process_response E c p d (Some body # others) results mem = (Inr results, mem)"
    if "map_of src ''is_irrelevant'' = None"
    using that run by (simp add: member_or_def)
  moreover have "process_response E c p d (Some body # others) results mem =
              (Inr (results @ [\<lparr>qr_content = ct, qr_reasoning = rt, qr_is_irrelevant = False,
                                qr_document = d\<rparr>]),
               add_message (add_message mem (user_message p)) (assistant_message (PStr ct)))"
    if "map_of src ''is_irrelevant'' = Some (PBool False)"
      and "(case map_of src ''content'' of None \<Rightarrow> PStr [] | Some v \<Rightarrow> v) = PStr ct"
      and "(case map_of src ''reasoning'' of None \<Rightarrow> PStr [] | Some v \<Rightarrow> v) = PStr rt"
    using that run by (simp add: member_or_def make_query_result_def)
  ultimately show ?thesis by blast
qed




section \<open>Properties of the streaming accumulator\<close>





text \<open>
  C10. A streaming query whose filtered list is empty ends with \<^verbatim>\<open>IndexError\<close>: no
  record is yielded, no request is issued and the memory is not changed (the state is the
  one before). This is so in particular when no document is supplied.
\<close>

theorem streaming_without_documents_fails:
  "(filter_documents_by_metadata E docs (filters_of_options opts) = Inr [] \<longrightarrow>
      streaming_query E c p docs opts st = (([], Some IndexError), st)
      \<and> query E c p docs opts True st = (Inl ([], Some IndexError), st))
   \<and> streaming_query E c p [] opts st = (([], Some IndexError), st)"
proof -
  have "filter_documents_by_metadata E [] (filters_of_options opts) = Inr []"
    by (simp add: filter_documents_by_metadata_def split: option.splits)
  then show ?thesis by (simp add: streaming_query_def query_def)
qed

text \<open>C10 at one document that the filter removes.\<close>

theorem streaming_without_documents_fails_witness:
  "filter_documents_by_metadata (sample_env [] [] []) [doc_sa1]
      (filters_of_options
         (Some (FilterDict \<lparr>key = ''id'', fvalue = VStr ''sa-3'', operator = Some ''equals''\<rparr>)))
     = Inr []
   \<and> streaming_query (sample_env [] [] []) sample_client ''What is Superagent?'' [doc_sa1]
        (Some (FilterDict \<lparr>key = ''id'', fvalue = VStr ''sa-3'', operator = Some ''equals''\<rparr>))
        fresh
     = (([], Some IndexError), fresh)"
proof -
  have h: "filter_documents_by_metadata (sample_env [] [] []) [doc_sa1]
      (filters_of_options
         (Some (FilterDict \<lparr>key = ''id'', fvalue = VStr ''sa-3'', operator = Some ''equals''\<rparr>)))
     = Inr []"
    by code_simp
  with streaming_without_documents_fails [of "sample_env [] [] []" "[doc_sa1]"
      "Some (FilterDict \<lparr>key = ''id'', fvalue = VStr ''sa-3'', operator = Some ''equals''\<rparr>)"
      sample_client "''What is Superagent?''" fresh]
  show ?thesis by simp
qed

end
